theory Spec2Isabelle
  imports Complex_Main
begin

section \<open>Data model\<close>

text \<open>
  The repository keeps all its data in pandas DataFrames. A DataFrame is modelled
  column by column, the way pandas stores it: the list of row labels (\<open>index\<close>) and one
  list of cells per named column, all of the length of the index.

  A cell of a float column is a finite number or NaN. Finite floats are modelled as
  reals (rounding and overflow are not modelled), NaN as \<open>None\<close>. The scalars that
  \<open>calculate_metrics\<close> derives by dividing two column sums are numpy scalars, whose
  division by zero yields an infinity or NaN with a warning, not an exception; they are
  modelled by \<open>float64\<close>.

  Only the columns the strategy and the backtester read or write are modelled: price,
  volume, order_quantity and the three execution columns; the timestamp column is read
  by none of them. The column order_quantity may be absent from a frame (reading an
  absent column raises KeyError). Row labels are integers, as those of the RangeIndex
  that the data generator produces; the operations are modelled for frames whose labels
  are unique.
\<close>

type_synonym cell = "real option"

datatype float64 = Finite real | PosInf | NegInf | NaN

datatype error = KeyError | ValueError

record dataframe =
  index :: "int list"
  price :: "cell list"
  volume :: "cell list"
  order_quantity :: "cell list option"

text \<open>The working copy of a Backtester: the market data with the three execution
  columns that \<open>__init__\<close> adds.\<close>

record exec_frame = dataframe +
  executed_quantity :: "cell list"
  executed_price :: "cell list"
  expected_price :: "cell list"

record backtester =
  market_data :: exec_frame
  slippage_factor :: real

record twap_strategy =
  total_order_quantity :: real
  start_index :: int
  end_index :: int

record metrics =
  execution_cost :: "float64 option"
  slippage :: "float64 option"
  fill_rate :: float64

subsection \<open>Cells, sums and scalar arithmetic\<close>

text \<open>\<open>x > 0\<close> on a cell: a comparison with NaN is False.\<close>

definition cell_gt0 :: "cell \<Rightarrow> bool" where
  "cell_gt0 c = (case c of None \<Rightarrow> False | Some x \<Rightarrow> 0 < x)"

text \<open>The product of two cells: NaN when either is NaN.\<close>

definition cell_mul :: "cell \<Rightarrow> cell \<Rightarrow> cell" where
  "cell_mul a b = (case a of None \<Rightarrow> None | Some x \<Rightarrow> (case b of None \<Rightarrow> None | Some y \<Rightarrow> Some (x * y)))"

text \<open>Python's builtin \<open>min(a, b)\<close>: \<open>b\<close> when \<open>b < a\<close>, else \<open>a\<close>; a comparison with NaN
  is False.\<close>

definition py_min :: "cell \<Rightarrow> cell \<Rightarrow> cell" where
  "py_min a b = (case a of None \<Rightarrow> a | Some x \<Rightarrow> (case b of None \<Rightarrow> a | Some y \<Rightarrow> if y < x then b else a))"

text \<open>\<open>Series.sum()\<close> skips NaN cells (the sum of no cell is 0).\<close>

fun nansum :: "cell list \<Rightarrow> real" where
  "nansum [] = 0"
| "nansum (None # cs) = nansum cs"
| "nansum (Some x # cs) = x + nansum cs"

text \<open>The cells of a column that are not NaN.\<close>

fun dropna_cells :: "cell list \<Rightarrow> real list" where
  "dropna_cells [] = []"
| "dropna_cells (None # cs) = dropna_cells cs"
| "dropna_cells (Some x # cs) = x # dropna_cells cs"

text \<open>\<open>Series.mean()\<close> skips NaN cells; the mean of no cell is NaN.\<close>

definition nanmean :: "cell list \<Rightarrow> float64" where
  "nanmean cs = (let xs = dropna_cells cs in
     if xs = [] then NaN else Finite (sum_list xs / real (length xs)))"

text \<open>Division of two finite numpy scalars: no exception on a zero divisor.\<close>

definition np_div :: "real \<Rightarrow> real \<Rightarrow> float64" where
  "np_div a b = (if b \<noteq> 0 then Finite (a / b)
     else if 0 < a then PosInf else if a < 0 then NegInf else NaN)"

fun np_sub :: "float64 \<Rightarrow> float64 \<Rightarrow> float64" where
  "np_sub NaN _ = NaN"
| "np_sub _ NaN = NaN"
| "np_sub (Finite a) (Finite b) = Finite (a - b)"
| "np_sub (Finite a) PosInf = NegInf"
| "np_sub (Finite a) NegInf = PosInf"
| "np_sub PosInf PosInf = NaN"
| "np_sub PosInf _ = PosInf"
| "np_sub NegInf NegInf = NaN"
| "np_sub NegInf _ = NegInf"

subsection \<open>Label lookup\<close>

text \<open>The position of a row label in the index (\<open>Index.get_loc\<close>); \<open>None\<close> when the
  label is missing. The model covers frames whose labels are unique.\<close>

fun get_loc :: "int list \<Rightarrow> int \<Rightarrow> nat option" where
  "get_loc [] l = None"
| "get_loc (x # xs) l = (if x = l then Some 0 else map_option Suc (get_loc xs l))"

text \<open>The invariant of a DataFrame: unique labels, every column as long as the index.\<close>

definition wf_frame :: "'a dataframe_scheme \<Rightarrow> bool" where
  "wf_frame df = (distinct (index df) \<and> length (price df) = length (index df)
     \<and> length (volume df) = length (index df)
     \<and> (case order_quantity df of None \<Rightarrow> True | Some qs \<Rightarrow> length qs = length (index df)))"

definition wf_exec :: "exec_frame \<Rightarrow> bool" where
  "wf_exec md = (wf_frame md \<and> length (executed_quantity md) = length (index md)
     \<and> length (executed_price md) = length (index md)
     \<and> length (expected_price md) = length (index md))"

section \<open>strategy.py: TWAPStrategy\<close>

text \<open>The row labels of a frame are 64-bit integers; \<open>start_index\<close> and \<open>end_index\<close> are
  Python integers, which are unbounded.\<close>

definition fits_int64 :: "int \<Rightarrow> bool" where
  "fits_int64 l = (- (2 ^ 63) \<le> l \<and> l < 2 ^ 63)"

text \<open>
  \<open>df_orders.at[idx, 'order_quantity'] = v\<close>. pandas sets the cell in place when the
  label \<open>idx\<close> is in the index. When it is missing, \<open>DataFrame._set_value\<close> catches the
  KeyError of \<open>get_loc\<close> and falls back to \<open>.loc\<close>, which enlarges the frame: a row with
  the label \<open>idx\<close> is appended, NaN in every other column (setting with enlargement, which
  the newest pandas releases still do, with a warning that a later release will raise
  KeyError). A missing label that is no signed 64-bit integer is not appended: the
  assignment raises ValueError. (pandas raises it for a label that needs more than 64
  bits. A label of 64 bits outside the signed range is counted with them here; no
  statement below is about such a label.)
\<close>

definition at_set_order_quantity :: "dataframe \<Rightarrow> int \<Rightarrow> real \<Rightarrow> error + dataframe" where
  "at_set_order_quantity df idx v =
     (let qs = (case order_quantity df of None \<Rightarrow> replicate (length (index df)) None | Some qs \<Rightarrow> qs)
      in case get_loc (index df) idx of
           Some p \<Rightarrow> Inr (df\<lparr>order_quantity := Some (qs[p := Some v])\<rparr>)
         | None \<Rightarrow>
             (if fits_int64 idx
              then Inr (df\<lparr>index := index df @ [idx], price := price df @ [None],
                           volume := volume df @ [None], order_quantity := Some (qs @ [Some v])\<rparr>)
              else Inl ValueError))"

text \<open>The loop \<open>for idx in range(start_index, end_index + 1)\<close>, over the list of its
  indices. An exception ends it; the frame it was building is a local of
  \<open>generate_orders\<close> and is lost.\<close>

fun assign_slices :: "int list \<Rightarrow> real \<Rightarrow> dataframe \<Rightarrow> error + dataframe" where
  "assign_slices [] v df = Inr df"
| "assign_slices (idx # rest) v df =
     (case at_set_order_quantity df idx v of
        Inl e \<Rightarrow> Inl e
      | Inr df' \<Rightarrow> assign_slices rest v df')"

definition generate_orders :: "twap_strategy \<Rightarrow> dataframe \<Rightarrow> error + dataframe" where
  "generate_orders self md =
     (let n_slices = (end_index self - start_index self) + 1;
          qty_per_slice = (if 0 < n_slices then total_order_quantity self / real_of_int n_slices else 0);
          df_orders = md\<lparr>order_quantity := Some (replicate (length (index md)) (Some 0))\<rparr>
      in assign_slices [start_index self .. end_index self] qty_per_slice df_orders)"

section \<open>backtest.py: Backtester\<close>

text \<open>\<open>__init__\<close>: a copy of the market data, with executed_quantity 0.0 and the two
  prices NaN in every row.\<close>

definition backtester_init :: "dataframe \<Rightarrow> real \<Rightarrow> backtester" where
  "backtester_init md s =
     \<lparr>market_data = \<lparr>index = index md, price = price md, volume = volume md,
        order_quantity = order_quantity md,
        executed_quantity = replicate (length (index md)) (Some 0),
        executed_price = replicate (length (index md)) None,
        expected_price = replicate (length (index md)) None\<rparr>,
      slippage_factor = s\<rparr>"

text \<open>The body of the loop of \<open>run\<close> for a row whose order quantity is positive and
  whose label is at position \<open>p\<close> of the working copy.\<close>

definition fill_row :: "real \<Rightarrow> exec_frame \<Rightarrow> nat \<Rightarrow> cell \<Rightarrow> exec_frame" where
  "fill_row s md p order_qty =
     (let market_volume = volume md ! p;
          possible_fill = py_min order_qty market_volume;
          executed_p = cell_mul (price md ! p) (Some (1 + s))
      in md\<lparr>expected_price := (expected_price md)[p := price md ! p],
            executed_price := (executed_price md)[p := executed_p],
            executed_quantity := (executed_quantity md)[p := possible_fill]\<rparr>)"

text \<open>The loop of \<open>run\<close> over the rows \<open>(idx, order_quantity)\<close> of the schedule. Reading
  \<open>self.market_data.at[idx, 'volume']\<close> raises KeyError when the label is missing; the
  rows filled before stay filled. The result is the exception raised, if any, and the
  working copy as the loop leaves it.\<close>

fun run_rows :: "real \<Rightarrow> (int \<times> cell) list \<Rightarrow> exec_frame \<Rightarrow> error option \<times> exec_frame" where
  "run_rows s [] md = (None, md)"
| "run_rows s ((idx, order_qty) # rest) md =
     (if cell_gt0 order_qty then
        (case get_loc (index md) idx of
           None \<Rightarrow> (Some KeyError, md)
         | Some p \<Rightarrow> run_rows s rest (fill_row s md p order_qty))
      else run_rows s rest md)"

text \<open>\<open>run\<close>: \<open>row['order_quantity']\<close> raises KeyError at the first row when the
  schedule has no such column. The Backtester after the call holds the mutated working
  copy, which is also the value \<open>run\<close> returns when it raises nothing.\<close>

definition run :: "backtester \<Rightarrow> dataframe \<Rightarrow> error option \<times> backtester" where
  "run self df_orders =
     (case order_quantity df_orders of
        None \<Rightarrow> (if index df_orders = [] then None else Some KeyError, self)
      | Some qs \<Rightarrow>
          (let (exc, md) = run_rows (slippage_factor self) (zip (index df_orders) qs) (market_data self)
           in (exc, self\<lparr>market_data := md\<rparr>)))"

subsection \<open>calculate_metrics\<close>

text \<open>\<open>str.upper()\<close> on ASCII strings.\<close>

definition upper_char :: "char \<Rightarrow> char" where
  "upper_char c = (let n = (of_char c :: nat) in if 97 \<le> n \<and> n \<le> 122 then char_of (n - 32) else c)"

definition upper :: "string \<Rightarrow> string" where
  "upper s = map upper_char s"

text \<open>The rows that survive \<open>dropna(subset=['executed_price'])\<close> and the filter
  \<open>executed_quantity > 0\<close>, as triples (executed_quantity, executed_price,
  expected_price).\<close>

definition executed_rows :: "exec_frame \<Rightarrow> (cell \<times> cell \<times> cell) list" where
  "executed_rows md =
     filter (\<lambda>(eq, ep, xp). ep \<noteq> None \<and> cell_gt0 eq)
       (zip (executed_quantity md) (zip (executed_price md) (expected_price md)))"

text \<open>Lines 85 to 91: the benchmark price.\<close>

definition benchmark_price :: "exec_frame \<Rightarrow> string \<Rightarrow> float64" where
  "benchmark_price md benchmark_type =
     (if upper benchmark_type = ''VWAP''
      then np_div (nansum (map2 cell_mul (price md) (volume md))) (nansum (volume md))
      else nanmean (price md))"

definition calculate_metrics :: "backtester \<Rightarrow> string \<Rightarrow> error + metrics" where
  "calculate_metrics self benchmark_type =
     (let md = market_data self;
          rows = executed_rows md
      in if rows = [] then Inr \<lparr>execution_cost = None, slippage = None, fill_rate = Finite 0\<rparr>
         else
           (let total_executed_quantity = nansum (map (\<lambda>(eq, ep, xp). eq) rows)
            in case order_quantity md of
                 None \<Rightarrow> Inl KeyError
               | Some qs \<Rightarrow>
                   (let total_order_quantity = nansum qs;
                        fill_rate = (if 0 < total_order_quantity
                                     then np_div total_executed_quantity total_order_quantity
                                     else Finite 0);
                        benchmark = benchmark_price md benchmark_type;
                        exec_value = nansum (map (\<lambda>(eq, ep, xp). cell_mul ep eq) rows);
                        avg_exec_price = np_div exec_value total_executed_quantity;
                        execution_cost = np_sub avg_exec_price benchmark;
                        expected_value = nansum (map (\<lambda>(eq, ep, xp). cell_mul xp eq) rows);
                        avg_expected_price = np_div expected_value total_executed_quantity;
                        slippage = np_sub avg_exec_price avg_expected_price
                    in Inr \<lparr>execution_cost = Some execution_cost, slippage = Some slippage,
                            fill_rate = fill_rate\<rparr>)))"

section \<open>The filled set, in the words of the specification\<close>

text \<open>The filled set: the periods (positions of the series) whose executed quantity is
  positive and whose executed price is defined. \<open>executed_rows\<close> above is what the
  code computes; the two are compared below.\<close>

definition filled_periods :: "exec_frame \<Rightarrow> nat list" where
  "filled_periods md =
     filter (\<lambda>i. executed_price md ! i \<noteq> None \<and> cell_gt0 (executed_quantity md ! i))
       [0..<length (index md)]"

text \<open>The sum of a per-period quantity over the filled set.\<close>

definition sum_over_filled :: "exec_frame \<Rightarrow> (nat \<Rightarrow> real) \<Rightarrow> real" where
  "sum_over_filled md f = sum_list (map f (filled_periods md))"

section \<open>Objects and aliasing\<close>

text \<open>
  The functions above pass frames by value. To say which object a call mutates, the
  DataFrame objects of the program are put in a store: a list of objects, the address of
  an object being its position. A DataFrame object has the three execution columns or
  not. A Backtester object holds the address of \<open>self.market_data\<close> and its slippage
  factor; neither attribute is ever reassigned.
\<close>

datatype frame_obj = Plain dataframe | Executed exec_frame

text \<open>The columns of a DataFrame object that a consumer of a market series or of a
  schedule reads.\<close>

fun as_dataframe :: "frame_obj \<Rightarrow> dataframe" where
  "as_dataframe (Plain df) = df"
| "as_dataframe (Executed md) =
     \<lparr>index = index md, price = price md, volume = volume md, order_quantity = order_quantity md\<rparr>"

record world =
  frames :: "frame_obj list"
  backtesters :: "(nat \<times> real) list"

text \<open>The calls of a caller: \<open>Construct a s\<close> is \<open>Backtester(frames[a], s)\<close>, \<open>Run b a\<close> is
  \<open>backtesters[b].run(frames[a])\<close>. An address or a Backtester that does not exist
  cannot be named in Python; such a call leaves the world as it is. (The object at the
  address a Backtester holds always has the execution columns; the branch for a plain
  frame there is never taken.)\<close>

datatype call = Construct nat real | Run nat nat

text \<open>
  \<open>__init__\<close> stores \<open>market_data.copy()\<close>, a new object, in \<open>self.market_data\<close> and adds
  the execution columns to that object. \<open>run\<close> writes through \<open>self.market_data.at\<close>, that
  is into the object at the address the Backtester holds; what it has written before an
  exception stays written.
\<close>

fun exec_call :: "world \<Rightarrow> call \<Rightarrow> world" where
  "exec_call w (Construct a s) =
     (if a < length (frames w)
      then w\<lparr>frames := frames w @ [Executed (market_data (backtester_init (as_dataframe (frames w ! a)) s))],
             backtesters := backtesters w @ [(length (frames w), s)]\<rparr>
      else w)"
| "exec_call w (Run b a) =
     (if b < length (backtesters w) \<and> a < length (frames w)
      then (case backtesters w ! b of (r, s) \<Rightarrow>
              (if r < length (frames w)
               then (case frames w ! r of
                       Executed md \<Rightarrow>
                         w\<lparr>frames := (frames w)
                              [r := Executed (market_data (snd (run \<lparr>market_data = md, slippage_factor = s\<rparr>
                                                                    (as_dataframe (frames w ! a)))))]\<rparr>
                     | Plain df \<Rightarrow> w)
               else w))
      else w)"

fun exec_calls :: "world \<Rightarrow> call list \<Rightarrow> world" where
  "exec_calls w [] = w"
| "exec_calls w (c # cs) = exec_calls (exec_call w c) cs"

text \<open>The objects below address \<open>n\<close> are the caller's: no Backtester holds one of them.\<close>

definition callers_below :: "nat \<Rightarrow> world \<Rightarrow> bool" where
  "callers_below n w = (n \<le> length (frames w) \<and> (\<forall>b \<in> set (backtesters w). n \<le> fst b))"

section \<open>Concrete inputs\<close>

text \<open>The market series of the concrete scenario: three periods with prices 10, 20, 30
  and volume 5 each, labelled 0, 1, 2, without an order_quantity column.\<close>

definition series3 :: dataframe where
  "series3 = \<lparr>index = [0, 1, 2], price = [Some 10, Some 20, Some 30],
     volume = [Some 5, Some 5, Some 5], order_quantity = None\<rparr>"

text \<open>A schedule for \<open>series3\<close> that orders nothing.\<close>

definition zero_schedule :: dataframe where
  "zero_schedule = series3\<lparr>order_quantity := Some [Some 0, Some 0, Some 0]\<rparr>"

text \<open>The TWAP strategy of the concrete scenario: 9 units over the periods 0 to 2.\<close>

definition twap9 :: twap_strategy where
  "twap9 = \<lparr>total_order_quantity = 9, start_index = 0, end_index = 2\<rparr>"

text \<open>The schedule of the concrete scenario, which is what \<open>generate_orders\<close> returns for
  \<open>twap9\<close> on \<open>series3\<close>, and the Backtester of the scenario after \<open>run\<close>, built as
  main.py builds it: from the schedule, with the schedule.\<close>

definition schedule3 :: dataframe where
  "schedule3 = series3\<lparr>order_quantity := Some [Some 3, Some 3, Some 3]\<rparr>"


text \<open>The market series of the volume-capped scenario: volumes 1, 5, 5.\<close>

definition series_capped :: dataframe where
  "series_capped = series3\<lparr>volume := [Some 1, Some 5, Some 5]\<rparr>"

text \<open>The schedule of the volume-capped scenario, which is what \<open>generate_orders\<close>
  returns for \<open>twap9\<close> on \<open>series_capped\<close>, and the Backtester of that scenario after
  \<open>run\<close>, built the same way.\<close>

definition schedule_capped :: dataframe where
  "schedule_capped = series_capped\<lparr>order_quantity := Some [Some 3, Some 3, Some 3]\<rparr>"

definition executed_capped :: backtester where
  "executed_capped = snd (run (backtester_init schedule_capped (1 / 10)) schedule_capped)"









text \<open>A market series that carries an order_quantity column of its own: 6 units in each
  period, twice what the schedule of the concrete scenario orders.\<close>

definition series3_with_orders :: dataframe where
  "series3_with_orders = series3\<lparr>order_quantity := Some [Some 6, Some 6, Some 6]\<rparr>"

text \<open>A TWAP strategy whose window ends one period after the end of \<open>series3\<close>, one
  whose window starts one period before its start, and one whose window is empty.\<close>

definition twap_past_end :: twap_strategy where
  "twap_past_end = \<lparr>total_order_quantity = 9, start_index = 0, end_index = 3\<rparr>"

definition twap_before_start :: twap_strategy where
  "twap_before_start = \<lparr>total_order_quantity = 9, start_index = - 1, end_index = 2\<rparr>"

definition twap_empty_window :: twap_strategy where
  "twap_empty_window = \<lparr>total_order_quantity = 9, start_index = 2, end_index = 0\<rparr>"

text \<open>What \<open>generate_orders\<close> returns for \<open>twap_past_end\<close> on \<open>series3\<close>: a fourth row,
  labelled 3, without price and volume.\<close>

definition past_end_schedule :: dataframe where
  "past_end_schedule = \<lparr>index = [0, 1, 2, 3], price = [Some 10, Some 20, Some 30, None],
     volume = [Some 5, Some 5, Some 5, None],
     order_quantity = Some [Some (9 / 4), Some (9 / 4), Some (9 / 4), Some (9 / 4)]\<rparr>"

text \<open>A TWAP strategy whose window is the single index 2^64.\<close>

definition twap_beyond_64_bits :: twap_strategy where
  "twap_beyond_64_bits = \<lparr>total_order_quantity = 9, start_index = 2 ^ 64, end_index = 2 ^ 64\<rparr>"

text \<open>A schedule that covers only the first two periods of \<open>series3\<close>, and one with a
  fourth row, labelled 3, that orders nothing.\<close>

definition short_schedule :: dataframe where
  "short_schedule = \<lparr>index = [0, 1], price = [Some 10, Some 20], volume = [Some 5, Some 5],
     order_quantity = Some [Some 3, Some 3]\<rparr>"

definition long_schedule :: dataframe where
  "long_schedule = \<lparr>index = [0, 1, 2, 3], price = [Some 10, Some 20, Some 30, None],
     volume = [Some 5, Some 5, Some 5, None],
     order_quantity = Some [Some 3, Some 3, Some 3, Some 0]\<rparr>"

text \<open>A schedule for \<open>series_capped\<close> that orders 3 units in the periods 0 and 2 and
  nothing in period 1.\<close>

definition gap_schedule :: dataframe where
  "gap_schedule = series_capped\<lparr>order_quantity := Some [Some 3, Some 0, Some 3]\<rparr>"

text \<open>The world of main.py before the Backtester is built: the schedule is the only
  DataFrame object (address 0); and the calls main.py makes.\<close>

definition main_world :: world where
  "main_world = \<lparr>frames = [Plain schedule3], backtesters = []\<rparr>"

definition main_calls :: "call list" where
  "main_calls = [Construct 0 (1 / 10), Run 0 0]"

section \<open>Auxiliary lemmas\<close>

lemma get_loc_Some: "get_loc xs l = Some p \<Longrightarrow> p < length xs \<and> xs ! p = l"
  by (induction xs arbitrary: p) (auto split: if_splits)

lemma get_loc_None_iff: "get_loc xs l = None \<longleftrightarrow> l \<notin> set xs"
  by (induction xs) auto

lemma get_loc_nth: "distinct xs \<Longrightarrow> p < length xs \<Longrightarrow> get_loc xs (xs ! p) = Some p"
proof (induction xs arbitrary: p)
  case Nil
  then show ?case by simp
next
  case (Cons x xs)
  then show ?case by (cases p) auto
qed

lemma py_min_Some: "py_min (Some q) (Some v) = Some (min q v)"
  by (simp add: py_min_def min_def)

lemma cell_mul_Some: "cell_mul (Some a) (Some b) = Some (a * b)"
  by (simp add: cell_mul_def)

text \<open>fill_row and run_rows keep the market columns.\<close>

lemma fill_row_frame:
  "index (fill_row s md p q) = index md" "price (fill_row s md p q) = price md"
  "volume (fill_row s md p q) = volume md" "order_quantity (fill_row s md p q) = order_quantity md"
  "length (executed_quantity (fill_row s md p q)) = length (executed_quantity md)"
  "length (executed_price (fill_row s md p q)) = length (executed_price md)"
  "length (expected_price (fill_row s md p q)) = length (expected_price md)"
  by (simp_all add: fill_row_def Let_def)

lemma run_rows_frame:
  "run_rows s rows md = (exc, md') \<Longrightarrow>
     index md' = index md \<and> price md' = price md \<and> volume md' = volume md
     \<and> order_quantity md' = order_quantity md
     \<and> length (executed_quantity md') = length (executed_quantity md)
     \<and> length (executed_price md') = length (executed_price md)
     \<and> length (expected_price md') = length (expected_price md)"
proof (induction rows arbitrary: md)
  case Nil
  then show ?case by simp
next
  case (Cons r rest)
  obtain idx order_qty where r: "r = (idx, order_qty)" by (cases r)
  show ?case
  proof (cases "cell_gt0 order_qty")
    case False
    with Cons.prems r have "run_rows s rest md = (exc, md')" by simp
    then show ?thesis by (rule Cons.IH)
  next
    case True
    show ?thesis
    proof (cases "get_loc (index md) idx")
      case None
      with True Cons.prems r have "md' = md" by simp
      then show ?thesis by simp
    next
      case (Some p)
      with True Cons.prems r have "run_rows s rest (fill_row s md p order_qty) = (exc, md')" by simp
      from Cons.IH [OF this] show ?thesis by (simp add: fill_row_frame)
    qed
  qed
qed

lemma run_frame:
  assumes "run self df_orders = (exc, self')"
  shows "index (market_data self') = index (market_data self)
    \<and> price (market_data self') = price (market_data self)
    \<and> volume (market_data self') = volume (market_data self)
    \<and> order_quantity (market_data self') = order_quantity (market_data self)
    \<and> slippage_factor self' = slippage_factor self
    \<and> length (executed_quantity (market_data self')) = length (executed_quantity (market_data self))
    \<and> length (executed_price (market_data self')) = length (executed_price (market_data self))
    \<and> length (expected_price (market_data self')) = length (expected_price (market_data self))"
proof (cases "order_quantity df_orders")
  case None
  with assms have "self' = self" by (simp add: run_def)
  then show ?thesis by simp
next
  case (Some qs)
  obtain e md where r: "run_rows (slippage_factor self) (zip (index df_orders) qs) (market_data self) = (e, md)"
    by (cases "run_rows (slippage_factor self) (zip (index df_orders) qs) (market_data self)")
  with assms Some have "self' = self\<lparr>market_data := md\<rparr>" by (simp add: run_def)
  with run_rows_frame [OF r] show ?thesis by simp
qed

lemma ball_zip3:
  assumes "length bs = length as" "length cs = length as"
  shows "(\<forall>r \<in> set (zip as (zip bs cs)). Q r) \<longleftrightarrow> (\<forall>i<length as. Q (as ! i, bs ! i, cs ! i))"
proof
  assume l: "\<forall>r \<in> set (zip as (zip bs cs)). Q r"
  show "\<forall>i<length as. Q (as ! i, bs ! i, cs ! i)"
  proof (intro allI impI)
    fix i assume i: "i < length as"
    with assms have e: "zip as (zip bs cs) ! i = (as ! i, bs ! i, cs ! i)" by simp
    from i assms have "i < length (zip as (zip bs cs))" by simp
    then have "zip as (zip bs cs) ! i \<in> set (zip as (zip bs cs))" by (rule nth_mem)
    with e l show "Q (as ! i, bs ! i, cs ! i)" by metis
  qed
next
  assume r: "\<forall>i<length as. Q (as ! i, bs ! i, cs ! i)"
  show "\<forall>r \<in> set (zip as (zip bs cs)). Q r"
  proof
    fix x assume "x \<in> set (zip as (zip bs cs))"
    then obtain i where i: "i < length (zip as (zip bs cs))" and x: "x = zip as (zip bs cs) ! i"
      by (auto simp: in_set_conv_nth)
    from i assms have "i < length as" by simp
    with x assms r show "Q x" by simp
  qed
qed

lemma executed_rows_empty_iff:
  assumes "wf_exec md"
  shows "executed_rows md = [] \<longleftrightarrow>
    (\<forall>i<length (index md). \<not> (executed_price md ! i \<noteq> None \<and> cell_gt0 (executed_quantity md ! i)))"
proof -
  let ?n = "length (index md)"
  from assms have len: "length (executed_quantity md) = ?n" "length (executed_price md) = ?n"
    "length (expected_price md) = ?n"
    by (simp_all add: wf_exec_def)
  have "executed_rows md = [] \<longleftrightarrow>
    (\<forall>r \<in> set (zip (executed_quantity md) (zip (executed_price md) (expected_price md))).
       \<not> (case r of (eq, ep, xp) \<Rightarrow> ep \<noteq> None \<and> cell_gt0 eq))"
    by (simp add: executed_rows_def filter_empty_conv)
  also have "\<dots> \<longleftrightarrow> (\<forall>i<?n. \<not> (executed_price md ! i \<noteq> None \<and> cell_gt0 (executed_quantity md ! i)))"
    using len by (subst ball_zip3) simp_all
  finally show ?thesis .
qed

lemma calculate_metrics_no_rows:
  "executed_rows (market_data self) = [] \<Longrightarrow>
   calculate_metrics self t = Inr \<lparr>execution_cost = None, slippage = None, fill_rate = Finite 0\<rparr>"
  by (simp add: calculate_metrics_def)

lemma run_rows_no_order:
  "\<forall>r \<in> set rows. \<not> cell_gt0 (snd r) \<Longrightarrow> run_rows s rows md = (None, md)"
  by (induction rows) auto

lemma executed_rows_init: "executed_rows (market_data (backtester_init md s)) = []"
  by (auto simp: executed_rows_def backtester_init_def filter_empty_conv set_zip)

lemma zip3_as_map:
  assumes "length bs = length as" "length cs = length as"
  shows "zip as (zip bs cs) = map (\<lambda>i. (as ! i, bs ! i, cs ! i)) [0..<length as]"
  using assms by (intro nth_equalityI) simp_all

lemma executed_rows_filled:
  assumes "wf_exec md"
  shows "executed_rows md
     = map (\<lambda>i. (executed_quantity md ! i, executed_price md ! i, expected_price md ! i))
         (filled_periods md)"
proof -
  from assms have len: "length (executed_price md) = length (executed_quantity md)"
    "length (expected_price md) = length (executed_quantity md)"
    "length (executed_quantity md) = length (index md)"
    by (simp_all add: wf_exec_def)
  show ?thesis
    unfolding executed_rows_def filled_periods_def zip3_as_map [OF len(1,2)] filter_map len(3)
    by (simp add: comp_def)
qed

lemma filled_periods_nonempty:
  "wf_exec md \<Longrightarrow> executed_rows md = [] \<longleftrightarrow> filled_periods md = []"
  by (simp add: executed_rows_filled)

lemma nansum_defined:
  "\<forall>i \<in> set is. c i \<noteq> None \<Longrightarrow> nansum (map c is) = sum_list (map (\<lambda>i. the (c i)) is)"
  by (induction "is") auto

lemma sum_list_pos_nonempty:
  fixes f :: "nat \<Rightarrow> real"
  shows "is \<noteq> [] \<Longrightarrow> \<forall>i \<in> set is. 0 < f i \<Longrightarrow> 0 < sum_list (map f is)"
proof (induction "is")
  case Nil
  then show ?case by simp
next
  case (Cons i rest)
  show ?case
  proof (cases "rest = []")
    case True
    with Cons.prems show ?thesis by simp
  next
    case False
    with Cons have "0 < sum_list (map f rest)" by simp
    moreover from Cons.prems have "0 < f i" by simp
    ultimately show ?thesis by simp
  qed
qed

lemma filled_periodsD:
  "i \<in> set (filled_periods md) \<Longrightarrow>
     i < length (index md) \<and> executed_price md ! i \<noteq> None \<and> executed_quantity md ! i \<noteq> None
     \<and> 0 < the (executed_quantity md ! i)"
  by (auto simp: filled_periods_def cell_gt0_def split: option.splits)

lemma total_executed_quantity_eq:
  assumes "wf_exec md"
  shows "nansum (map (\<lambda>(eq, ep, xp). eq) (executed_rows md))
     = sum_over_filled md (\<lambda>i. the (executed_quantity md ! i))"
proof -
  have "nansum (map (\<lambda>(eq, ep, xp). eq) (executed_rows md))
      = nansum (map (\<lambda>i. executed_quantity md ! i) (filled_periods md))"
    by (simp add: executed_rows_filled [OF assms] comp_def)
  also have "\<dots> = sum_list (map (\<lambda>i. the (executed_quantity md ! i)) (filled_periods md))"
    by (rule nansum_defined) (simp add: filled_periodsD)
  finally show ?thesis by (simp add: sum_over_filled_def)
qed

lemma total_executed_quantity_pos:
  assumes "filled_periods md \<noteq> []"
  shows "0 < sum_over_filled md (\<lambda>i. the (executed_quantity md ! i))"
  unfolding sum_over_filled_def
  using assms by (rule sum_list_pos_nonempty) (simp add: filled_periodsD)

lemma cell_mul_the:
  "a \<noteq> None \<Longrightarrow> b \<noteq> None \<Longrightarrow> cell_mul a b \<noteq> None \<and> the (cell_mul a b) = the a * the b"
  by (auto simp: cell_mul_def)

lemma exec_value_eq:
  assumes "wf_exec md"
  shows "nansum (map (\<lambda>(eq, ep, xp). cell_mul ep eq) (executed_rows md))
     = sum_over_filled md (\<lambda>i. the (executed_price md ! i) * the (executed_quantity md ! i))"
proof -
  have "nansum (map (\<lambda>(eq, ep, xp). cell_mul ep eq) (executed_rows md))
      = nansum (map (\<lambda>i. cell_mul (executed_price md ! i) (executed_quantity md ! i)) (filled_periods md))"
    by (simp add: executed_rows_filled [OF assms] comp_def)
  also have "\<dots> = sum_list (map (\<lambda>i. the (cell_mul (executed_price md ! i) (executed_quantity md ! i)))
      (filled_periods md))"
    by (rule nansum_defined) (simp add: filled_periodsD cell_mul_the)
  also have "\<dots> = sum_list (map (\<lambda>i. the (executed_price md ! i) * the (executed_quantity md ! i))
      (filled_periods md))"
    by (rule arg_cong [where f = sum_list], rule map_cong) (simp_all add: filled_periodsD cell_mul_the)
  finally show ?thesis by (simp add: sum_over_filled_def)
qed


lemma np_div_pos: "0 < b \<Longrightarrow> np_div a b = Finite (a / b)"
  by (simp add: np_div_def)

text \<open>calculate_metrics when some period is filled.\<close>

lemma calculate_metrics_rows:
  assumes wf: "wf_exec (market_data self)" and ne: "filled_periods (market_data self) \<noteq> []"
  shows "calculate_metrics self t =
    (case order_quantity (market_data self) of
       None \<Rightarrow> Inl KeyError
     | Some qs \<Rightarrow>
        Inr \<lparr>execution_cost = Some (np_sub
                (Finite (sum_over_filled (market_data self)
                           (\<lambda>i. the (executed_price (market_data self) ! i) * the (executed_quantity (market_data self) ! i))
                         / sum_over_filled (market_data self) (\<lambda>i. the (executed_quantity (market_data self) ! i))))
                (benchmark_price (market_data self) t)),
             slippage = Some (np_sub
                (Finite (sum_over_filled (market_data self)
                           (\<lambda>i. the (executed_price (market_data self) ! i) * the (executed_quantity (market_data self) ! i))
                         / sum_over_filled (market_data self) (\<lambda>i. the (executed_quantity (market_data self) ! i))))
                (Finite (nansum (map (\<lambda>(eq, ep, xp). cell_mul xp eq) (executed_rows (market_data self)))
                         / sum_over_filled (market_data self) (\<lambda>i. the (executed_quantity (market_data self) ! i))))),
             fill_rate = (if 0 < nansum qs
                          then Finite (sum_over_filled (market_data self) (\<lambda>i. the (executed_quantity (market_data self) ! i)) / nansum qs)
                          else Finite 0)\<rparr>)"
proof -
  let ?md = "market_data self"
  let ?Q = "sum_over_filled ?md (\<lambda>i. the (executed_quantity ?md ! i))"
  from wf ne have rows: "executed_rows ?md \<noteq> []" by (simp add: filled_periods_nonempty)
  have Q: "0 < ?Q" using ne by (rule total_executed_quantity_pos)
  show ?thesis
    using rows Q
    by (simp add: calculate_metrics_def Let_def total_executed_quantity_eq [OF wf]
        exec_value_eq [OF wf] np_div_pos split: option.splits)
qed

lemma upto_0_2: "[0..2::int] = [0, 1, 2]"
  by (simp add: upto.simps)


lemma upper_VWAP: "upper ''VWAP'' = ''VWAP''"
  by code_simp




lemma upt_3: "[0..<3] = [0, 1, 2]"
  by (simp add: upt_rec)

lemma upper_char_of_nat:
  "upper_char c = (if 97 \<le> (of_char c :: nat) \<and> (of_char c :: nat) \<le> 122
                   then char_of ((of_char c :: nat) - 32) else c)"
  by (simp add: upper_char_def Let_def)

lemma upper_char_eq_iff:
  assumes u: "65 \<le> (of_char U :: nat)" "(of_char U :: nat) \<le> 90"
    and l: "(of_char L :: nat) = of_char U + 32"
  shows "upper_char c = U \<longleftrightarrow> c = U \<or> c = L"
proof
  assume e: "upper_char c = U"
  show "c = U \<or> c = L"
  proof (cases "97 \<le> (of_char c :: nat) \<and> (of_char c :: nat) \<le> 122")
    case False
    with e show ?thesis by (simp add: upper_char_of_nat)
  next
    case True
    with e have "char_of ((of_char c :: nat) - 32) = U" by (simp add: upper_char_of_nat)
    then have "(of_char (char_of ((of_char c :: nat) - 32)) :: nat) = of_char U" by simp
    then have "((of_char c :: nat) - 32) mod 256 = of_char U" by simp
    moreover from True have "(of_char c :: nat) - 32 < 256" by arith
    then have "((of_char c :: nat) - 32) mod 256 = of_char c - 32" by (rule mod_less)
    ultimately have "(of_char c :: nat) - 32 = of_char U" by simp
    with True have "(of_char c :: nat) = of_char U + 32" by arith
    with l have "(of_char c :: nat) = of_char L" by simp
    then show ?thesis by simp
  qed
next
  assume "c = U \<or> c = L"
  then show "upper_char c = U"
  proof
    assume "c = U"
    with u show ?thesis by (simp add: upper_char_of_nat)
  next
    assume c: "c = L"
    have "char_of ((of_char U :: nat) + 32 - 32) = U" by simp
    with u l show ?thesis unfolding c by (simp add: upper_char_of_nat)
  qed
qed

lemma upper_char_V: "upper_char c = CHR ''V'' \<longleftrightarrow> c = CHR ''V'' \<or> c = CHR ''v''"
  by (rule upper_char_eq_iff) simp_all

lemma upper_char_W: "upper_char c = CHR ''W'' \<longleftrightarrow> c = CHR ''W'' \<or> c = CHR ''w''"
  by (rule upper_char_eq_iff) simp_all

lemma upper_char_A: "upper_char c = CHR ''A'' \<longleftrightarrow> c = CHR ''A'' \<or> c = CHR ''a''"
  by (rule upper_char_eq_iff) simp_all

lemma upper_char_P: "upper_char c = CHR ''P'' \<longleftrightarrow> c = CHR ''P'' \<or> c = CHR ''p''"
  by (rule upper_char_eq_iff) simp_all

lemma upper_VWAP_iff:
  "upper t = ''VWAP'' \<longleftrightarrow>
     (\<exists>a b c d. t = [a, b, c, d] \<and> a \<in> {CHR ''V'', CHR ''v''} \<and> b \<in> {CHR ''W'', CHR ''w''}
        \<and> c \<in> {CHR ''A'', CHR ''a''} \<and> d \<in> {CHR ''P'', CHR ''p''})"
proof
  assume "upper t = ''VWAP''"
  then have m: "map upper_char t = [CHR ''V'', CHR ''W'', CHR ''A'', CHR ''P'']" by (simp add: upper_def)
  then obtain a b c d where t: "t = [a, b, c, d]"
    by (auto simp: map_eq_Cons_conv)
  with m have "upper_char a = CHR ''V''" "upper_char b = CHR ''W''" "upper_char c = CHR ''A''"
    "upper_char d = CHR ''P''" by simp_all
  then have "a \<in> {CHR ''V'', CHR ''v''} \<and> b \<in> {CHR ''W'', CHR ''w''}
        \<and> c \<in> {CHR ''A'', CHR ''a''} \<and> d \<in> {CHR ''P'', CHR ''p''}"
    unfolding upper_char_V upper_char_W upper_char_A upper_char_P by blast
  with t show "\<exists>a b c d. t = [a, b, c, d] \<and> a \<in> {CHR ''V'', CHR ''v''} \<and> b \<in> {CHR ''W'', CHR ''w''}
        \<and> c \<in> {CHR ''A'', CHR ''a''} \<and> d \<in> {CHR ''P'', CHR ''p''}" by blast
next
  assume "\<exists>a b c d. t = [a, b, c, d] \<and> a \<in> {CHR ''V'', CHR ''v''} \<and> b \<in> {CHR ''W'', CHR ''w''}
        \<and> c \<in> {CHR ''A'', CHR ''a''} \<and> d \<in> {CHR ''P'', CHR ''p''}"
  then obtain a b c d where t: "t = [a, b, c, d]"
    and "a = CHR ''V'' \<or> a = CHR ''v''" "b = CHR ''W'' \<or> b = CHR ''w''"
    "c = CHR ''A'' \<or> c = CHR ''a''" "d = CHR ''P'' \<or> d = CHR ''p''" by blast
  then have "upper_char a = CHR ''V''" "upper_char b = CHR ''W''" "upper_char c = CHR ''A''"
    "upper_char d = CHR ''P''"
    unfolding upper_char_V upper_char_W upper_char_A upper_char_P by simp_all
  with t show "upper t = ''VWAP''" by (simp add: upper_def)
qed

lemma nansum_map_Some: "nansum (map Some xs) = sum_list xs"
  by (induction xs) simp_all

lemma dropna_cells_map_Some: "dropna_cells (map Some xs) = xs"
  by (induction xs) simp_all

lemma map2_cell_mul_Some:
  "map2 cell_mul (map Some ps) (map Some vs) = map Some (map2 (*) ps vs)"
proof (induction ps arbitrary: vs)
  case Nil
  then show ?case by simp
next
  case (Cons p ps)
  then show ?case by (cases vs) (simp_all add: cell_mul_def)
qed

lemma benchmark_price_defined:
  assumes "price md = map Some ps" "volume md = map Some vs" "ps \<noteq> []"
  shows "benchmark_price md t =
        (if upper t = ''VWAP'' then np_div (sum_list (map2 (*) ps vs)) (sum_list vs)
         else Finite (sum_list ps / real (length ps)))"
  using assms
  by (simp add: benchmark_price_def map2_cell_mul_Some nansum_map_Some nanmean_def
      dropna_cells_map_Some del: map_map)

lemma executed_capped_eq:
  "executed_capped = \<lparr>market_data = \<lparr>index = [0, 1, 2], price = [Some 10, Some 20, Some 30],
        volume = [Some 1, Some 5, Some 5], order_quantity = Some [Some 3, Some 3, Some 3],
        executed_quantity = [Some 1, Some 3, Some 3], executed_price = [Some 11, Some 22, Some 33],
        expected_price = [Some 10, Some 20, Some 30]\<rparr>, slippage_factor = 1 / 10\<rparr>"
  by (simp add: executed_capped_def schedule_capped_def series_capped_def series3_def run_def
      backtester_init_def fill_row_def Let_def cell_gt0_def py_min_def cell_mul_def)

lemma generate_orders_capped: "generate_orders twap9 series_capped = Inr schedule_capped"
  by (simp add: generate_orders_def twap9_def schedule_capped_def series_capped_def series3_def
      at_set_order_quantity_def upto_0_2)

lemma upper_vwap: "upper ''vwap'' = ''VWAP''"
  by code_simp

lemma upper_avg_price: "upper ''avg_price'' = ''AVG_PRICE''"
  by code_simp

lemma metrics_capped_cases:
  "upper t = ''VWAP'' \<Longrightarrow> calculate_metrics executed_capped t
     = Inr \<lparr>execution_cost = Some (Finite (116 / 77)), slippage = Some (Finite (16 / 7)),
            fill_rate = Finite (7 / 9)\<rparr>"
  "upper t \<noteq> ''VWAP'' \<Longrightarrow> calculate_metrics executed_capped t
     = Inr \<lparr>execution_cost = Some (Finite (36 / 7)), slippage = Some (Finite (16 / 7)),
            fill_rate = Finite (7 / 9)\<rparr>"
  by (simp_all add: executed_capped_eq calculate_metrics_def executed_rows_def cell_gt0_def
      cell_mul_def benchmark_price_def np_div_def nanmean_def)







lemma wf_exec_init: "wf_frame md \<Longrightarrow> wf_exec (market_data (backtester_init md s))"
  by (simp add: wf_exec_def wf_frame_def backtester_init_def split: option.splits)

lemma run_wf_exec:
  assumes "run self df_orders = (exc, self')" "wf_exec (market_data self)"
  shows "wf_exec (market_data self')"
  using run_frame [OF assms(1)] assms(2) by (simp add: wf_exec_def wf_frame_def split: option.splits)







lemma run_series3:
  "run (backtester_init series3 (1 / 10)) schedule3
   = (None, \<lparr>market_data = \<lparr>index = [0, 1, 2], price = [Some 10, Some 20, Some 30],
        volume = [Some 5, Some 5, Some 5], order_quantity = None,
        executed_quantity = [Some 3, Some 3, Some 3], executed_price = [Some 11, Some 22, Some 33],
        expected_price = [Some 10, Some 20, Some 30]\<rparr>, slippage_factor = 1 / 10\<rparr>)"
  unfolding schedule3_def
  by (simp add: run_def backtester_init_def series3_def fill_row_def Let_def cell_gt0_def py_min_def cell_mul_def)

lemma run_series3_with_orders:
  "run (backtester_init series3_with_orders (1 / 10)) schedule3
   = (None, \<lparr>market_data = \<lparr>index = [0, 1, 2], price = [Some 10, Some 20, Some 30],
        volume = [Some 5, Some 5, Some 5], order_quantity = Some [Some 6, Some 6, Some 6],
        executed_quantity = [Some 3, Some 3, Some 3], executed_price = [Some 11, Some 22, Some 33],
        expected_price = [Some 10, Some 20, Some 30]\<rparr>, slippage_factor = 1 / 10\<rparr>)"
  unfolding schedule3_def
  by (simp add: run_def backtester_init_def series3_with_orders_def series3_def fill_row_def Let_def
      cell_gt0_def py_min_def cell_mul_def)

lemma at_set_present:
  "get_loc (index df) idx = Some p \<Longrightarrow> order_quantity df = Some qs \<Longrightarrow>
     at_set_order_quantity df idx v = Inr (df\<lparr>order_quantity := Some (qs[p := Some v])\<rparr>)"
  by (simp add: at_set_order_quantity_def)

lemma at_set_missing:
  "idx \<notin> set (index df) \<Longrightarrow> fits_int64 idx \<Longrightarrow> order_quantity df = Some qs \<Longrightarrow>
     at_set_order_quantity df idx v
       = Inr (df\<lparr>index := index df @ [idx], price := price df @ [None],
              volume := volume df @ [None], order_quantity := Some (qs @ [Some v])\<rparr>)"
  by (simp add: at_set_order_quantity_def get_loc_None_iff [THEN iffD2])

lemma map2_update_label:
  assumes "distinct ixs" "p < length ixs" "length qs = length ixs"
  shows "map2 (\<lambda>l q. if l \<in> S then Some v else q) ixs (qs[p := Some v])
     = map2 (\<lambda>l q. if l \<in> insert (ixs ! p) S then Some v else q) ixs qs"
proof (rule nth_equalityI)
  show "length (map2 (\<lambda>l q. if l \<in> S then Some v else q) ixs (qs[p := Some v]))
      = length (map2 (\<lambda>l q. if l \<in> insert (ixs ! p) S then Some v else q) ixs qs)"
    by simp
next
  fix i assume "i < length (map2 (\<lambda>l q. if l \<in> S then Some v else q) ixs (qs[p := Some v]))"
  with assms have i: "i < length ixs" "i < length qs" by simp_all
  show "map2 (\<lambda>l q. if l \<in> S then Some v else q) ixs (qs[p := Some v]) ! i
      = map2 (\<lambda>l q. if l \<in> insert (ixs ! p) S then Some v else q) ixs qs ! i"
  proof (cases "i = p")
    case True
    with i assms show ?thesis by simp
  next
    case False
    with assms i have "ixs ! i \<noteq> ixs ! p" by (simp add: nth_eq_iff_index_eq)
    with False i assms show ?thesis by simp
  qed
qed

lemma map2_cong_labels:
  assumes "\<And>l. l \<in> set ixs \<Longrightarrow> (l \<in> S) = (l \<in> T)"
  shows "map2 (\<lambda>l q. if l \<in> S then Some v else q) ixs qs
     = map2 (\<lambda>l q. if l \<in> T then Some v else q) ixs qs"
  using assms by (auto dest: set_zip_leftD)

text \<open>What the loop of generate_orders does to a frame with unique labels.\<close>

lemma assign_slices_frame:
  assumes "distinct ls" "distinct (index df)" "order_quantity df = Some qs"
    "length qs = length (index df)"
    "\<forall>l \<in> set ls. l \<notin> set (index df) \<longrightarrow> fits_int64 l"
  shows "assign_slices ls v df
    = Inr (df\<lparr>index := index df @ filter (\<lambda>l. l \<notin> set (index df)) ls,
          price := price df @ replicate (length (filter (\<lambda>l. l \<notin> set (index df)) ls)) None,
          volume := volume df @ replicate (length (filter (\<lambda>l. l \<notin> set (index df)) ls)) None,
          order_quantity := Some (map2 (\<lambda>l q. if l \<in> set ls then Some v else q) (index df) qs
             @ replicate (length (filter (\<lambda>l. l \<notin> set (index df)) ls)) (Some v))\<rparr>)"
  using assms
proof (induction ls arbitrary: df qs)
  case Nil
  then have "map2 (\<lambda>l q. q) (index df) qs = qs"
    by (intro nth_equalityI) simp_all
  with Nil show ?case by simp
next
  case (Cons idx rest)
  from Cons.prems have d: "distinct rest" "idx \<notin> set rest" by simp_all
  show ?case
  proof (cases "idx \<in> set (index df)")
    case True
    then obtain p where p: "get_loc (index df) idx = Some p"
      by (cases "get_loc (index df) idx") (simp_all add: get_loc_None_iff)
    then have pl: "p < length (index df)" "index df ! p = idx" by (simp_all add: get_loc_Some)
    let ?df = "df\<lparr>order_quantity := Some (qs[p := Some v])\<rparr>"
    have s: "at_set_order_quantity df idx v = Inr ?df"
      using p Cons.prems(3) by (rule at_set_present)
    have "assign_slices rest v ?df
      = Inr (?df\<lparr>index := index ?df @ filter (\<lambda>l. l \<notin> set (index ?df)) rest,
          price := price ?df @ replicate (length (filter (\<lambda>l. l \<notin> set (index ?df)) rest)) None,
          volume := volume ?df @ replicate (length (filter (\<lambda>l. l \<notin> set (index ?df)) rest)) None,
          order_quantity := Some (map2 (\<lambda>l q. if l \<in> set rest then Some v else q) (index ?df) (qs[p := Some v])
             @ replicate (length (filter (\<lambda>l. l \<notin> set (index ?df)) rest)) (Some v))\<rparr>)"
      using d(1) Cons.prems by (intro Cons.IH) simp_all
    moreover have "map2 (\<lambda>l q. if l \<in> set rest then Some v else q) (index df) (qs[p := Some v])
        = map2 (\<lambda>l q. if l \<in> set (idx # rest) then Some v else q) (index df) qs"
      using map2_update_label [OF Cons.prems(2) pl(1) Cons.prems(4), of "set rest" v] pl(2) by simp
    ultimately show ?thesis using True s by simp
  next
    case False
    let ?df = "df\<lparr>index := index df @ [idx], price := price df @ [None],
              volume := volume df @ [None], order_quantity := Some (qs @ [Some v])\<rparr>"
    from False Cons.prems(5) have fit: "fits_int64 idx" by simp
    have s: "at_set_order_quantity df idx v = Inr ?df"
      using False fit Cons.prems(3) by (rule at_set_missing)
    have ih: "assign_slices rest v ?df
      = Inr (?df\<lparr>index := index ?df @ filter (\<lambda>l. l \<notin> set (index ?df)) rest,
          price := price ?df @ replicate (length (filter (\<lambda>l. l \<notin> set (index ?df)) rest)) None,
          volume := volume ?df @ replicate (length (filter (\<lambda>l. l \<notin> set (index ?df)) rest)) None,
          order_quantity := Some (map2 (\<lambda>l q. if l \<in> set rest then Some v else q) (index ?df) (qs @ [Some v])
             @ replicate (length (filter (\<lambda>l. l \<notin> set (index ?df)) rest)) (Some v))\<rparr>)"
      using d(1) False Cons.prems by (intro Cons.IH) simp_all
    have f: "filter (\<lambda>l. l \<noteq> idx \<and> l \<notin> set (index df)) rest = filter (\<lambda>l. l \<notin> set (index df)) rest"
      using d(2) by (intro filter_cong) auto
    have m: "map2 (\<lambda>l q. if l \<in> set rest then Some v else q) (index df @ [idx]) (qs @ [Some v])
        = map2 (\<lambda>l q. if l \<in> set (idx # rest) then Some v else q) (index df) qs @ [Some v]"
    proof -
      have "map2 (\<lambda>l q. if l \<in> set rest then Some v else q) (index df) qs
          = map2 (\<lambda>l q. if l \<in> set (idx # rest) then Some v else q) (index df) qs"
        using False by (intro map2_cong_labels) auto
      with Cons.prems(4) show ?thesis by simp
    qed
    show ?thesis
      using False s ih by (simp add: f m replicate_app_Cons_same)
  qed
qed

lemma generate_orders_frame:
  assumes "distinct (index md)"
    and "\<forall>l \<in> set [start_index self .. end_index self]. l \<notin> set (index md) \<longrightarrow> fits_int64 l"
  shows "generate_orders self md
    = Inr (md\<lparr>index := index md @ filter (\<lambda>l. l \<notin> set (index md)) [start_index self .. end_index self],
          price := price md
            @ replicate (length (filter (\<lambda>l. l \<notin> set (index md)) [start_index self .. end_index self])) None,
          volume := volume md
            @ replicate (length (filter (\<lambda>l. l \<notin> set (index md)) [start_index self .. end_index self])) None,
          order_quantity := Some
            (map (\<lambda>l. Some (if start_index self \<le> l \<and> l \<le> end_index self
                              then (if 0 < end_index self - start_index self + 1
                                    then total_order_quantity self
                                         / real_of_int (end_index self - start_index self + 1)
                                    else 0)
                              else 0)) (index md)
             @ replicate (length (filter (\<lambda>l. l \<notin> set (index md)) [start_index self .. end_index self]))
                 (Some (if 0 < end_index self - start_index self + 1
                        then total_order_quantity self
                             / real_of_int (end_index self - start_index self + 1)
                        else 0)))\<rparr>)"
proof -
  let ?v = "if 0 < end_index self - start_index self + 1
            then total_order_quantity self / real_of_int (end_index self - start_index self + 1)
            else 0"
  let ?zeros = "replicate (length (index md)) (Some (0::real))"
  let ?df = "md\<lparr>order_quantity := Some ?zeros\<rparr>"
  have m: "map2 (\<lambda>l q. if l \<in> set [start_index self .. end_index self] then Some ?v else q)
             (index md) ?zeros
      = map (\<lambda>l. Some (if start_index self \<le> l \<and> l \<le> end_index self then ?v else 0)) (index md)"
    by (intro nth_equalityI) simp_all
  have "generate_orders self md = assign_slices [start_index self .. end_index self] ?v ?df"
    unfolding generate_orders_def Let_def by (rule refl)
  also have "\<dots>
    = Inr (?df\<lparr>index := index ?df @ filter (\<lambda>l. l \<notin> set (index ?df)) [start_index self .. end_index self],
          price := price ?df
            @ replicate (length (filter (\<lambda>l. l \<notin> set (index ?df)) [start_index self .. end_index self])) None,
          volume := volume ?df
            @ replicate (length (filter (\<lambda>l. l \<notin> set (index ?df)) [start_index self .. end_index self])) None,
          order_quantity := Some
            (map2 (\<lambda>l q. if l \<in> set [start_index self .. end_index self] then Some ?v else q)
               (index ?df) ?zeros
             @ replicate (length (filter (\<lambda>l. l \<notin> set (index ?df)) [start_index self .. end_index self]))
                 (Some ?v))\<rparr>)"
    using assms by (intro assign_slices_frame) simp_all
  also have "\<dots>
    = Inr (md\<lparr>index := index md @ filter (\<lambda>l. l \<notin> set (index md)) [start_index self .. end_index self],
          price := price md
            @ replicate (length (filter (\<lambda>l. l \<notin> set (index md)) [start_index self .. end_index self])) None,
          volume := volume md
            @ replicate (length (filter (\<lambda>l. l \<notin> set (index md)) [start_index self .. end_index self])) None,
          order_quantity := Some
            (map (\<lambda>l. Some (if start_index self \<le> l \<and> l \<le> end_index self then ?v else 0)) (index md)
             @ replicate (length (filter (\<lambda>l. l \<notin> set (index md)) [start_index self .. end_index self]))
                 (Some ?v))\<rparr>)"
  proof -
    have i: "index ?df = index md" "price ?df = price md" "volume ?df = volume md" by simp_all
    show ?thesis unfolding i m by simp
  qed
  finally show ?thesis .
qed

lemma set_dense_index: "set (map int [0..<N]) = {l. 0 \<le> l \<and> l < int N}"
proof (intro set_eqI iffI)
  fix l assume "l \<in> set (map int [0..<N])"
  then show "l \<in> {l. 0 \<le> l \<and> l < int N}" by auto
next
  fix l assume "l \<in> {l. 0 \<le> l \<and> l < int N}"
  then have "nat l \<in> set [0..<N]" "int (nat l) = l" by auto
  then show "l \<in> set (map int [0..<N])" by (metis image_eqI set_map)
qed

lemma filter_in_range_empty:
  assumes "0 \<le> a" "b < int N"
  shows "filter (\<lambda>l. l \<notin> set (map int [0..<N])) [a..b] = []"
proof -
  have "\<forall>l \<in> set [a..b]. l \<in> set (map int [0..<N])"
    unfolding set_dense_index using assms by auto
  then show ?thesis by (simp only: filter_empty_conv) blast
qed

lemma sum_list_window:
  fixes q :: real
  assumes "0 \<le> a"
  shows "sum_list (map (\<lambda>i. if a \<le> int i \<and> int i \<le> b then q else 0) [0..<N])
     = q * real_of_int (max 0 (min (int N - 1) b - a + 1))"
proof (induction N)
  case 0
  with assms show ?case by (simp add: max_def min_def)
next
  case (Suc N)
  show ?case
  proof (cases "a \<le> int N \<and> int N \<le> b")
    case True
    then have "max 0 (min (int (Suc N) - 1) b - a + 1) = max 0 (min (int N - 1) b - a + 1) + 1"
      by (auto simp: max_def min_def)
    with True Suc show ?thesis by (simp add: algebra_simps)
  next
    case False
    with assms have "max 0 (min (int (Suc N) - 1) b - a + 1) = max 0 (min (int N - 1) b - a + 1)"
      by (auto simp: max_def min_def)
    with False Suc show ?thesis by auto
  qed
qed

lemma nansum_map_Some_fun: "nansum (map (\<lambda>i. Some (f i)) xs) = sum_list (map f xs)"
  by (induction xs) simp_all

lemma upto_0_3: "[0..3::int] = [0, 1, 2, 3]"
  by (simp add: upto.simps)

lemma upto_m1_2: "[- 1..2::int] = [- 1, 0, 1, 2]"
  by (simp add: upto.simps)

lemma filter_dense_index:
  "filter (\<lambda>l. l \<notin> set (map int [0..<N])) ls = filter (\<lambda>l. l < 0 \<or> int N \<le> l) ls"
  unfolding set_dense_index by (rule filter_cong) auto

lemma fill_row_other:
  assumes "p' \<noteq> p"
  shows "executed_quantity (fill_row s md p' q) ! p = executed_quantity md ! p"
    and "executed_price (fill_row s md p' q) ! p = executed_price md ! p"
    and "expected_price (fill_row s md p' q) ! p = expected_price md ! p"
  using assms by (simp_all add: fill_row_def Let_def)

lemma fill_row_same:
  assumes "p < length (executed_quantity md)" "p < length (executed_price md)"
    "p < length (expected_price md)"
  shows "executed_quantity (fill_row s md p q) ! p = py_min q (volume md ! p)"
    and "executed_price (fill_row s md p q) ! p = cell_mul (price md ! p) (Some (1 + s))"
    and "expected_price (fill_row s md p q) ! p = price md ! p"
  using assms by (simp_all add: fill_row_def Let_def)

text \<open>A period that no row with a positive quantity names is left as it was.\<close>

lemma run_rows_untouched:
  assumes "distinct (index md)" "p < length (index md)"
    "\<forall>r \<in> set rows. cell_gt0 (snd r) \<longrightarrow> fst r \<noteq> index md ! p"
  shows "executed_quantity (snd (run_rows s rows md)) ! p = executed_quantity md ! p
     \<and> executed_price (snd (run_rows s rows md)) ! p = executed_price md ! p
     \<and> expected_price (snd (run_rows s rows md)) ! p = expected_price md ! p"
  using assms
proof (induction rows arbitrary: md)
  case Nil
  then show ?case by simp
next
  case (Cons r rest)
  obtain idx q where r: "r = (idx, q)" by (cases r)
  show ?case
  proof (cases "cell_gt0 q")
    case False
    with Cons r show ?thesis by simp
  next
    case True
    with Cons.prems r have ne: "idx \<noteq> index md ! p" by simp
    show ?thesis
    proof (cases "get_loc (index md) idx")
      case None
      with True r show ?thesis by simp
    next
      case (Some p')
      then have "index md ! p' = idx" by (simp add: get_loc_Some)
      with ne have pp: "p' \<noteq> p" by auto
      have "executed_quantity (snd (run_rows s rest (fill_row s md p' q))) ! p
            = executed_quantity (fill_row s md p' q) ! p
         \<and> executed_price (snd (run_rows s rest (fill_row s md p' q))) ! p
            = executed_price (fill_row s md p' q) ! p
         \<and> expected_price (snd (run_rows s rest (fill_row s md p' q))) ! p
            = expected_price (fill_row s md p' q) ! p"
        using Cons.prems by (intro Cons.IH) (simp_all add: fill_row_frame)
      with True Some r pp show ?thesis by (simp add: fill_row_other)
    qed
  qed
qed

text \<open>The loop raises KeyError exactly when a row with a positive quantity names a
  label that the working copy does not have.\<close>

lemma run_rows_ok_iff:
  "fst (run_rows s rows md) = None
     \<longleftrightarrow> (\<forall>r \<in> set rows. cell_gt0 (snd r) \<longrightarrow> fst r \<in> set (index md))"
proof (induction rows arbitrary: md)
  case Nil
  then show ?case by simp
next
  case (Cons r rest)
  obtain idx q where r: "r = (idx, q)" by (cases r)
  show ?case
  proof (cases "cell_gt0 q")
    case False
    with Cons r show ?thesis by simp
  next
    case True
    show ?thesis
    proof (cases "get_loc (index md) idx")
      case None
      then have "idx \<notin> set (index md)" by (simp add: get_loc_None_iff)
      with True None r show ?thesis by auto
    next
      case (Some p')
      then have "idx \<in> set (index md)"
        using get_loc_None_iff [of "index md" idx] by auto
      with True Some r Cons.IH [of "fill_row s md p' q"] show ?thesis
        by (simp add: fill_row_frame)
    qed
  qed
qed

text \<open>A period that a row with a positive quantity names is filled from that row.\<close>

lemma run_rows_filled:
  assumes "distinct (map fst rows)" "distinct (index md)" "p < length (index md)"
    "length (executed_quantity md) = length (index md)"
    "length (executed_price md) = length (index md)"
    "length (expected_price md) = length (index md)"
    "(index md ! p, q) \<in> set rows" "cell_gt0 q"
    "fst (run_rows s rows md) = None"
  shows "executed_quantity (snd (run_rows s rows md)) ! p = py_min q (volume md ! p)
     \<and> executed_price (snd (run_rows s rows md)) ! p = cell_mul (price md ! p) (Some (1 + s))
     \<and> expected_price (snd (run_rows s rows md)) ! p = price md ! p"
  using assms
proof (induction rows arbitrary: md)
  case Nil
  then show ?case by simp
next
  case (Cons r rest)
  obtain idx q0 where r: "r = (idx, q0)" by (cases r)
  from Cons.prems(1) r have d: "distinct (map fst rest)" "idx \<notin> fst ` set rest" by simp_all
  show ?case
  proof (cases "(idx, q0) = (index md ! p, q)")
    case True
    then have e: "idx = index md ! p" "q0 = q" by simp_all
    from Cons.prems have loc: "get_loc (index md) idx = Some p"
      unfolding e by (simp add: get_loc_nth)
    let ?md = "fill_row s md p q"
    have un: "\<forall>r \<in> set rest. cell_gt0 (snd r) \<longrightarrow> fst r \<noteq> index ?md ! p"
      using d(2) e by (force simp: fill_row_frame)
    have "executed_quantity (snd (run_rows s rest ?md)) ! p = executed_quantity ?md ! p
       \<and> executed_price (snd (run_rows s rest ?md)) ! p = executed_price ?md ! p
       \<and> expected_price (snd (run_rows s rest ?md)) ! p = expected_price ?md ! p"
      using Cons.prems(2,3) un by (intro run_rows_untouched) (simp_all add: fill_row_frame)
    moreover have "run_rows s (r # rest) md = run_rows s rest ?md"
      using Cons.prems(8) loc r e by simp
    ultimately show ?thesis using Cons.prems(3-6) by (simp add: fill_row_same)
  next
    case False
    with Cons.prems(7) r have mem: "(index md ! p, q) \<in> set rest" by auto
    show ?thesis
    proof (cases "cell_gt0 q0")
      case False
      with r have s: "run_rows s (r # rest) md = run_rows s rest md" by simp
      from Cons.prems(9) have "fst (run_rows s rest md) = None" unfolding s .
      with Cons.IH [OF d(1) Cons.prems(2-6) mem Cons.prems(8)] show ?thesis unfolding s by simp
    next
      case True
      show ?thesis
      proof (cases "get_loc (index md) idx")
        case None
        with True r Cons.prems(9) show ?thesis by simp
      next
        case (Some p')
        let ?md = "fill_row s md p' q0"
        from True Some r have s: "run_rows s (r # rest) md = run_rows s rest ?md" by simp
        from Cons.prems(9) have ok: "fst (run_rows s rest ?md) = None" unfolding s .
        have "executed_quantity (snd (run_rows s rest ?md)) ! p = py_min q (volume ?md ! p)
           \<and> executed_price (snd (run_rows s rest ?md)) ! p = cell_mul (price ?md ! p) (Some (1 + s))
           \<and> expected_price (snd (run_rows s rest ?md)) ! p = price ?md ! p"
          using d(1) Cons.prems(2-6) mem Cons.prems(8) ok
          by (intro Cons.IH) (simp_all add: fill_row_frame)
        then show ?thesis unfolding s by (simp add: fill_row_frame)
      qed
    qed
  qed
qed

lemma run_with_column:
  assumes "order_quantity df_orders = Some qs"
  shows "fst (run self df_orders)
      = fst (run_rows (slippage_factor self) (zip (index df_orders) qs) (market_data self))"
    and "market_data (snd (run self df_orders))
      = snd (run_rows (slippage_factor self) (zip (index df_orders) qs) (market_data self))"
    and "slippage_factor (snd (run self df_orders)) = slippage_factor self"
  using assms by (simp_all add: run_def split: prod.splits)

lemma run_without_column:
  assumes "order_quantity df_orders = None"
  shows "snd (run self df_orders) = self"
  using assms by (simp add: run_def)

lemma init_columns:
  "index (market_data (backtester_init md s)) = index md"
  "price (market_data (backtester_init md s)) = price md"
  "volume (market_data (backtester_init md s)) = volume md"
  "order_quantity (market_data (backtester_init md s)) = order_quantity md"
  "executed_quantity (market_data (backtester_init md s)) = replicate (length (index md)) (Some 0)"
  "executed_price (market_data (backtester_init md s)) = replicate (length (index md)) None"
  "expected_price (market_data (backtester_init md s)) = replicate (length (index md)) None"
  "slippage_factor (backtester_init md s) = s"
  by (simp_all add: backtester_init_def)

text \<open>run on a Backtester fresh from \<open>__init__\<close>: a period that no row of the schedule
  with a positive quantity names keeps executed quantity 0 and undefined prices.\<close>

lemma run_init_untouched:
  assumes d: "distinct (index md)" and i: "i < length (index md)"
    and no: "\<forall>r \<in> set (zip (index df_orders) qs). cell_gt0 (snd r) \<longrightarrow> fst r \<noteq> index md ! i"
    and oq: "order_quantity df_orders = Some qs \<or> order_quantity df_orders = None"
  shows "executed_quantity (market_data (snd (run (backtester_init md s) df_orders))) ! i = Some 0
     \<and> executed_price (market_data (snd (run (backtester_init md s) df_orders))) ! i = None
     \<and> expected_price (market_data (snd (run (backtester_init md s) df_orders))) ! i = None"
proof (cases "order_quantity df_orders")
  case None
  with i show ?thesis by (simp add: run_without_column init_columns)
next
  case (Some qs')
  with oq have q: "qs' = qs" by simp
  let ?md = "market_data (backtester_init md s)"
  have "executed_quantity (snd (run_rows s (zip (index df_orders) qs) ?md)) ! i = executed_quantity ?md ! i
     \<and> executed_price (snd (run_rows s (zip (index df_orders) qs) ?md)) ! i = executed_price ?md ! i
     \<and> expected_price (snd (run_rows s (zip (index df_orders) qs) ?md)) ! i = expected_price ?md ! i"
    using d i no by (intro run_rows_untouched) (simp_all add: init_columns)
  with Some q i show ?thesis by (simp add: run_with_column init_columns)
qed

lemma zip_nth_mem:
  "i < length xs \<Longrightarrow> length ys = length xs \<Longrightarrow> (xs ! i, ys ! i) \<in> set (zip xs ys)"
  by (auto simp: set_zip)

lemma zip_distinct_label:
  assumes "distinct xs" "length ys = length xs" "i < length xs" "r \<in> set (zip xs ys)"
    "fst r = xs ! i"
  shows "snd r = ys ! i"
proof -
  from assms(4) obtain j where j: "j < length xs" "j < length ys" "r = (xs ! j, ys ! j)"
    by (auto simp: set_zip)
  with assms have "j = i" by (simp add: nth_eq_iff_index_eq)
  with j show ?thesis by simp
qed

lemma generate_orders_past_end: "generate_orders twap_past_end series3 = Inr past_end_schedule"
  by (simp add: generate_orders_def Let_def twap_past_end_def past_end_schedule_def series3_def
      at_set_order_quantity_def fits_int64_def upto_0_3)

text \<open>The model of the refused label: a window at 2^64 ends \<open>generate_orders\<close> with
  ValueError.\<close>

lemma generate_orders_beyond_64_bits: "generate_orders twap_beyond_64_bits series3 = Inl ValueError"
  by (simp add: generate_orders_def Let_def twap_beyond_64_bits_def series3_def
      at_set_order_quantity_def fits_int64_def)

text \<open>\<open>run\<close> raises nothing but KeyError.\<close>

lemma run_rows_no_ValueError: "fst (run_rows s rows md) \<noteq> Some ValueError"
proof (induction rows arbitrary: md)
  case Nil
  then show ?case by simp
next
  case (Cons r rest)
  obtain idx q where r: "r = (idx, q)" by (cases r)
  show ?case
  proof (cases "cell_gt0 q")
    case False
    with Cons r show ?thesis by simp
  next
    case True
    show ?thesis
    proof (cases "get_loc (index md) idx")
      case None
      with True r show ?thesis by simp
    next
      case (Some p)
      with True r Cons.IH [of "fill_row s md p q"] show ?thesis by simp
    qed
  qed
qed

lemma run_rows_KeyError_iff:
  "(fst (run_rows s rows md) = Some KeyError) = (fst (run_rows s rows md) \<noteq> None)"
proof (cases "fst (run_rows s rows md)")
  case None
  then show ?thesis by simp
next
  case (Some e)
  with run_rows_no_ValueError [of s rows md] show ?thesis by (cases e) simp_all
qed

lemma exec_call_keeps:
  assumes "callers_below n w"
  shows "callers_below n (exec_call w c) \<and> (\<forall>a<n. frames (exec_call w c) ! a = frames w ! a)"
proof (cases c)
  case (Construct a s)
  with assms show ?thesis
    by (auto simp: callers_below_def nth_append)
next
  case (Run b a)
  show ?thesis
  proof (cases "b < length (backtesters w) \<and> a < length (frames w)")
    case False
    with Run assms show ?thesis by auto
  next
    case True
    obtain r s where rs: "backtesters w ! b = (r, s)" by (cases "backtesters w ! b")
    with True have "(r, s) \<in> set (backtesters w)" by (metis nth_mem)
    with assms have nr: "n \<le> r" by (auto simp: callers_below_def)
    show ?thesis
    proof (cases "r < length (frames w)")
      case False
      with Run True rs assms show ?thesis by simp
    next
      case r: True
      show ?thesis
      proof (cases "frames w ! r")
        case (Plain df)
        with Run True rs r assms show ?thesis by simp
      next
        case (Executed md)
        with Run True rs r have e: "exec_call w c
            = w\<lparr>frames := (frames w)
                  [r := Executed (market_data (snd (run \<lparr>market_data = md, slippage_factor = s\<rparr>
                                                        (as_dataframe (frames w ! a)))))]\<rparr>"
          by simp
        from assms nr show ?thesis unfolding e by (auto simp: callers_below_def)
      qed
    qed
  qed
qed

lemma exec_calls_keep:
  "callers_below n w \<Longrightarrow> a < n \<Longrightarrow> frames (exec_calls w cs) ! a = frames w ! a"
proof (induction cs arbitrary: w)
  case Nil
  then show ?case by simp
next
  case (Cons c cs)
  from exec_call_keeps [OF Cons.prems(1), of c] Cons.prems(2)
  have k: "callers_below n (exec_call w c)" and s: "frames (exec_call w c) ! a = frames w ! a"
    by simp_all
  from Cons.IH [OF k Cons.prems(2)] s show ?case by simp
qed

lemma main_world_run:
  "frames (exec_calls main_world main_calls)
    = [Plain schedule3,
       Executed \<lparr>index = [0, 1, 2], price = [Some 10, Some 20, Some 30],
         volume = [Some 5, Some 5, Some 5], order_quantity = Some [Some 3, Some 3, Some 3],
         executed_quantity = [Some 3, Some 3, Some 3], executed_price = [Some 11, Some 22, Some 33],
         expected_price = [Some 10, Some 20, Some 30]\<rparr>]"
  unfolding main_world_def main_calls_def schedule3_def
  by (simp add: run_def backtester_init_def series3_def fill_row_def Let_def cell_gt0_def
      py_min_def cell_mul_def)

section \<open>Properties of the strategy, the simulator and the metrics\<close>

text \<open>
  C4. When no period has both a positive executed quantity and a defined executed
  price, \<open>calculate_metrics\<close> raises nothing and returns execution_cost None, slippage
  None and fill_rate 0, whatever the benchmark type and whether or not the market data
  has an order_quantity column. In particular this is so after \<open>run\<close> on a schedule that
  orders nothing (no cell of its order_quantity column is positive): \<open>run\<close> raises
  nothing and leaves the working copy as \<open>__init__\<close> made it.
\<close>

theorem calculate_metrics_empty_fill:
  "(wf_exec (market_data self) \<and>
      (\<forall>i<length (index (market_data self)).
          \<not> (executed_price (market_data self) ! i \<noteq> None
              \<and> cell_gt0 (executed_quantity (market_data self) ! i)))
     \<longrightarrow> calculate_metrics self benchmark_type
           = Inr \<lparr>execution_cost = None, slippage = None, fill_rate = Finite 0\<rparr>)
   \<and> (order_quantity df_orders = Some qs \<and> (\<forall>q \<in> set qs. \<not> cell_gt0 q)
     \<longrightarrow> run (backtester_init md s) df_orders = (None, backtester_init md s)
         \<and> calculate_metrics (backtester_init md s) benchmark_type
           = Inr \<lparr>execution_cost = None, slippage = None, fill_rate = Finite 0\<rparr>)"
proof (intro conjI impI)
  assume a: "wf_exec (market_data self) \<and>
      (\<forall>i<length (index (market_data self)).
          \<not> (executed_price (market_data self) ! i \<noteq> None
              \<and> cell_gt0 (executed_quantity (market_data self) ! i)))"
  then have "executed_rows (market_data self) = []"
    using executed_rows_empty_iff [of "market_data self"] by blast
  then show "calculate_metrics self benchmark_type
           = Inr \<lparr>execution_cost = None, slippage = None, fill_rate = Finite 0\<rparr>"
    by (rule calculate_metrics_no_rows)
next
  assume b: "order_quantity df_orders = Some qs \<and> (\<forall>q \<in> set qs. \<not> cell_gt0 q)"
  then have "\<forall>r \<in> set (zip (index df_orders) qs). \<not> cell_gt0 (snd r)"
    by (auto dest: set_zip_rightD)
  then have "run_rows s (zip (index df_orders) qs) (market_data (backtester_init md s))
      = (None, market_data (backtester_init md s))"
    by (rule run_rows_no_order)
  with b show "run (backtester_init md s) df_orders = (None, backtester_init md s)"
    by (simp add: run_def backtester_init_def)
next
  show "calculate_metrics (backtester_init md s) benchmark_type
           = Inr \<lparr>execution_cost = None, slippage = None, fill_rate = Finite 0\<rparr>"
    by (rule calculate_metrics_no_rows) (rule executed_rows_init)
qed

theorem calculate_metrics_empty_fill_witness:
  "wf_exec (market_data (backtester_init series3 (1 / 10)))
   \<and> executed_price (market_data (backtester_init series3 (1 / 10))) = [None, None, None]
   \<and> order_quantity zero_schedule = Some [Some 0, Some 0, Some 0]
   \<and> calculate_metrics (backtester_init series3 (1 / 10)) ''VWAP''
       = Inr \<lparr>execution_cost = None, slippage = None, fill_rate = Finite 0\<rparr>
   \<and> run (backtester_init series3 (1 / 10)) zero_schedule = (None, backtester_init series3 (1 / 10))"
proof -
  have wf: "wf_exec (market_data (backtester_init series3 (1 / 10)))"
    by (simp add: wf_exec_def wf_frame_def backtester_init_def series3_def)
  have ep: "executed_price (market_data (backtester_init series3 (1 / 10))) = [None, None, None]"
    by (simp add: backtester_init_def series3_def)
  have len: "length (index (market_data (backtester_init series3 (1 / 10)))) = 3"
    by (simp add: backtester_init_def series3_def)
  have none: "\<forall>i<length (index (market_data (backtester_init series3 (1 / 10)))).
      \<not> (executed_price (market_data (backtester_init series3 (1 / 10))) ! i \<noteq> None
          \<and> cell_gt0 (executed_quantity (market_data (backtester_init series3 (1 / 10))) ! i))"
    unfolding len ep by (simp add: nth_Cons split: nat.splits)
  have oq: "order_quantity zero_schedule = Some [Some 0, Some 0, Some 0]"
    by (simp add: zero_schedule_def)
  have z: "\<forall>q \<in> set [Some 0, Some (0::real), Some 0]. \<not> cell_gt0 q"
    by (simp add: cell_gt0_def)
  from calculate_metrics_empty_fill
    [of "backtester_init series3 (1 / 10)" "''VWAP''" zero_schedule "[Some 0, Some 0, Some 0]"
        series3 "1 / 10"]
    wf ep none oq z
  show ?thesis by blast
qed



text \<open>
  C5 as stated fails: the code compares \<open>benchmark_type.upper()\<close> with VWAP, so the
  string vwap, which is not the string VWAP, selects the volume-weighted benchmark as
  well, not the arithmetic mean of the prices. In the volume-capped scenario the
  execution cost with vwap is that with VWAP, 116/77; against the mean of the prices,
  as with avg_price, it is 36/7.
\<close>

theorem benchmark_type_lowercase_counterexample:
  "''vwap'' \<noteq> ''VWAP''
   \<and> calculate_metrics executed_capped ''vwap''
       = Inr \<lparr>execution_cost = Some (Finite (116 / 77)), slippage = Some (Finite (16 / 7)),
              fill_rate = Finite (7 / 9)\<rparr>
   \<and> calculate_metrics executed_capped ''VWAP''
       = Inr \<lparr>execution_cost = Some (Finite (116 / 77)), slippage = Some (Finite (16 / 7)),
              fill_rate = Finite (7 / 9)\<rparr>
   \<and> calculate_metrics executed_capped ''avg_price''
       = Inr \<lparr>execution_cost = Some (Finite (36 / 7)), slippage = Some (Finite (16 / 7)),
              fill_rate = Finite (7 / 9)\<rparr>"
  by (simp add: metrics_capped_cases upper_vwap upper_VWAP upper_avg_price)

text \<open>
  C5, amended. The benchmark price that \<open>calculate_metrics\<close> subtracts from the average
  executed price is selected by the upper-cased benchmark type: when
  \<open>benchmark_type.upper()\<close> is VWAP, that is when benchmark_type is VWAP in any mix of
  upper and lower case, it is sum(price * volume) / sum(volume) over the entire market
  series (a numpy division); for every other string it is the arithmetic mean of price
  over the entire market series. (Stated for a series whose prices and volumes are all
  numbers.)
\<close>

theorem benchmark_price_selection:
  "(price md = map Some ps \<and> volume md = map Some vs \<and> ps \<noteq> [] \<longrightarrow>
      benchmark_price md benchmark_type =
        (if upper benchmark_type = ''VWAP''
         then np_div (sum_list (map2 (*) ps vs)) (sum_list vs)
         else Finite (sum_list ps / real (length ps))))
   \<and> (upper benchmark_type = ''VWAP'' \<longleftrightarrow>
        (\<exists>a b c d. benchmark_type = [a, b, c, d] \<and> a \<in> {CHR ''V'', CHR ''v''}
           \<and> b \<in> {CHR ''W'', CHR ''w''} \<and> c \<in> {CHR ''A'', CHR ''a''} \<and> d \<in> {CHR ''P'', CHR ''p''}))
   \<and> (wf_exec (market_data self) \<and> order_quantity (market_data self) = Some qs
        \<and> filled_periods (market_data self) \<noteq> [] \<longrightarrow>
        (\<exists>m. calculate_metrics self benchmark_type = Inr m
           \<and> execution_cost m = Some (np_sub
                (Finite (sum_over_filled (market_data self)
                           (\<lambda>i. the (executed_price (market_data self) ! i)
                                * the (executed_quantity (market_data self) ! i))
                         / sum_over_filled (market_data self)
                             (\<lambda>i. the (executed_quantity (market_data self) ! i))))
                (benchmark_price (market_data self) benchmark_type))))"
proof (intro conjI impI)
  assume "price md = map Some ps \<and> volume md = map Some vs \<and> ps \<noteq> []"
  then show "benchmark_price md benchmark_type =
        (if upper benchmark_type = ''VWAP''
         then np_div (sum_list (map2 (*) ps vs)) (sum_list vs)
         else Finite (sum_list ps / real (length ps)))"
    by (simp add: benchmark_price_defined)
next
  show "upper benchmark_type = ''VWAP'' \<longleftrightarrow>
        (\<exists>a b c d. benchmark_type = [a, b, c, d] \<and> a \<in> {CHR ''V'', CHR ''v''}
           \<and> b \<in> {CHR ''W'', CHR ''w''} \<and> c \<in> {CHR ''A'', CHR ''a''} \<and> d \<in> {CHR ''P'', CHR ''p''})"
    by (rule upper_VWAP_iff)
next
  assume a: "wf_exec (market_data self) \<and> order_quantity (market_data self) = Some qs
        \<and> filled_periods (market_data self) \<noteq> []"
  then have wf: "wf_exec (market_data self)" and ne: "filled_periods (market_data self) \<noteq> []"
    and oq: "order_quantity (market_data self) = Some qs" by simp_all
  show "\<exists>m. calculate_metrics self benchmark_type = Inr m
           \<and> execution_cost m = Some (np_sub
                (Finite (sum_over_filled (market_data self)
                           (\<lambda>i. the (executed_price (market_data self) ! i)
                                * the (executed_quantity (market_data self) ! i))
                         / sum_over_filled (market_data self)
                             (\<lambda>i. the (executed_quantity (market_data self) ! i))))
                (benchmark_price (market_data self) benchmark_type))"
    by (simp add: calculate_metrics_rows [OF wf ne] oq)
qed

theorem benchmark_price_selection_witness:
  "price (market_data executed_capped) = map Some [10, 20, 30]
   \<and> volume (market_data executed_capped) = map Some [1, 5, 5]
   \<and> wf_exec (market_data executed_capped)
   \<and> order_quantity (market_data executed_capped) = Some [Some 3, Some 3, Some 3]
   \<and> filled_periods (market_data executed_capped) = [0, 1, 2]
   \<and> upper ''vWaP'' = ''VWAP''
   \<and> benchmark_price (market_data executed_capped) ''vWaP'' = Finite (260 / 11)
   \<and> calculate_metrics executed_capped ''vWaP''
       = Inr \<lparr>execution_cost = Some (Finite (116 / 77)), slippage = Some (Finite (16 / 7)),
              fill_rate = Finite (7 / 9)\<rparr>"
proof -
  have p: "price (market_data executed_capped) = map Some [10, 20, 30]"
    and v: "volume (market_data executed_capped) = map Some [1, 5, 5]"
    and oq: "order_quantity (market_data executed_capped) = Some [Some 3, Some 3, Some 3]"
    by (simp_all add: executed_capped_eq)
  have wf: "wf_exec (market_data executed_capped)"
    by (simp add: executed_capped_eq wf_exec_def wf_frame_def)
  have fp: "filled_periods (market_data executed_capped) = [0, 1, 2]"
    by (simp add: executed_capped_eq filled_periods_def upt_3 cell_gt0_def)
  note th = benchmark_price_selection [of "market_data executed_capped" "[10, 20, 30]" "[1, 5, 5]"
      "''vWaP''" executed_capped "[Some 3, Some 3, Some 3]"]
  from th have up: "upper ''vWaP'' = ''VWAP''" by simp
  from th p v up have bp: "benchmark_price (market_data executed_capped) ''vWaP'' = Finite (260 / 11)"
    by (simp add: np_div_def)
  from th wf oq fp obtain m where m: "calculate_metrics executed_capped ''vWaP'' = Inr m"
    and "execution_cost m = Some (np_sub
                (Finite (sum_over_filled (market_data executed_capped)
                           (\<lambda>i. the (executed_price (market_data executed_capped) ! i)
                                * the (executed_quantity (market_data executed_capped) ! i))
                         / sum_over_filled (market_data executed_capped)
                             (\<lambda>i. the (executed_quantity (market_data executed_capped) ! i))))
                (benchmark_price (market_data executed_capped) ''vWaP''))"
    by auto
  have "calculate_metrics executed_capped ''vWaP''
       = Inr \<lparr>execution_cost = Some (Finite (116 / 77)), slippage = Some (Finite (16 / 7)),
              fill_rate = Finite (7 / 9)\<rparr>"
    using up by (rule metrics_capped_cases)
  with p v wf oq fp up bp show ?thesis by simp
qed




text \<open>
  C10. \<open>calculate_metrics\<close> reads the denominator of the fill rate from the
  order_quantity column of the market data given to the constructor, never from the
  schedule given to \<open>run\<close>. After \<open>run\<close> on any schedule (whether or not \<open>run\<close> raised),
  if at least one period is filled: when the constructor's market data has no
  order_quantity column, \<open>calculate_metrics\<close> raises KeyError; when it has one, no
  KeyError is raised and fill_rate is the executed total over the total of that column
  (0 unless that total is positive).
\<close>

theorem fill_rate_reads_constructor_column:
  "wf_frame md \<and> run (backtester_init md s) df_orders = (exc, self')
     \<and> filled_periods (market_data self') \<noteq> []
   \<longrightarrow> (order_quantity md = None \<longrightarrow> calculate_metrics self' benchmark_type = Inl KeyError)
       \<and> (\<forall>qs. order_quantity md = Some qs \<longrightarrow>
            (\<exists>m. calculate_metrics self' benchmark_type = Inr m
               \<and> fill_rate m =
                   (if 0 < nansum qs
                    then Finite (sum_over_filled (market_data self')
                                   (\<lambda>i. the (executed_quantity (market_data self') ! i))
                                 / nansum qs)
                    else Finite 0)))"
proof (intro impI)
  assume a: "wf_frame md \<and> run (backtester_init md s) df_orders = (exc, self')
     \<and> filled_periods (market_data self') \<noteq> []"
  then have wf: "wf_frame md" and r: "run (backtester_init md s) df_orders = (exc, self')"
    and ne: "filled_periods (market_data self') \<noteq> []" by simp_all
  have wf': "wf_exec (market_data self')"
    by (rule run_wf_exec [OF r wf_exec_init [OF wf]])
  from run_frame [OF r] have oq: "order_quantity (market_data self') = order_quantity md"
    by (simp add: backtester_init_def)
  show "(order_quantity md = None \<longrightarrow> calculate_metrics self' benchmark_type = Inl KeyError)
       \<and> (\<forall>qs. order_quantity md = Some qs \<longrightarrow>
            (\<exists>m. calculate_metrics self' benchmark_type = Inr m
               \<and> fill_rate m =
                   (if 0 < nansum qs
                    then Finite (sum_over_filled (market_data self')
                                   (\<lambda>i. the (executed_quantity (market_data self') ! i))
                                 / nansum qs)
                    else Finite 0)))"
    by (simp add: calculate_metrics_rows [OF wf' ne] oq)
qed

theorem fill_rate_reads_constructor_column_witness:
  "wf_frame series3 \<and> order_quantity series3 = None
   \<and> order_quantity schedule3 = Some [Some 3, Some 3, Some 3]
   \<and> fst (run (backtester_init series3 (1 / 10)) schedule3) = None
   \<and> filled_periods (market_data (snd (run (backtester_init series3 (1 / 10)) schedule3))) = [0, 1, 2]
   \<and> calculate_metrics (snd (run (backtester_init series3 (1 / 10)) schedule3)) ''VWAP''
       = Inl KeyError
   \<and> wf_frame series3_with_orders
   \<and> order_quantity series3_with_orders = Some [Some 6, Some 6, Some 6]
   \<and> filled_periods (market_data (snd (run (backtester_init series3_with_orders (1 / 10)) schedule3)))
       = [0, 1, 2]
   \<and> (\<exists>m. calculate_metrics (snd (run (backtester_init series3_with_orders (1 / 10)) schedule3)) ''VWAP''
            = Inr m \<and> fill_rate m = Finite (1 / 2))"
proof -
  have wf: "wf_frame series3" and oq: "order_quantity series3 = None"
    by (simp_all add: wf_frame_def series3_def)
  have os: "order_quantity schedule3 = Some [Some 3, Some 3, Some 3]"
    by (simp add: schedule3_def)
  have e: "fst (run (backtester_init series3 (1 / 10)) schedule3) = None"
    by (simp add: run_series3)
  have fp: "filled_periods (market_data (snd (run (backtester_init series3 (1 / 10)) schedule3))) = [0, 1, 2]"
    by (simp add: run_series3 filled_periods_def upt_3 cell_gt0_def)
  have r: "run (backtester_init series3 (1 / 10)) schedule3
      = (None, snd (run (backtester_init series3 (1 / 10)) schedule3))"
    by (simp add: run_series3)
  from fill_rate_reads_constructor_column
    [of series3 "1 / 10" schedule3 None "snd (run (backtester_init series3 (1 / 10)) schedule3)" "''VWAP''"]
    wf r fp oq
  have k: "calculate_metrics (snd (run (backtester_init series3 (1 / 10)) schedule3)) ''VWAP''
       = Inl KeyError"
    by simp
  have wf2: "wf_frame series3_with_orders"
    and oq2: "order_quantity series3_with_orders = Some [Some 6, Some 6, Some 6]"
    by (simp_all add: wf_frame_def series3_with_orders_def series3_def)
  have fp2: "filled_periods (market_data (snd (run (backtester_init series3_with_orders (1 / 10)) schedule3)))
       = [0, 1, 2]"
    by (simp add: run_series3_with_orders filled_periods_def upt_3 cell_gt0_def)
  have r2: "run (backtester_init series3_with_orders (1 / 10)) schedule3
      = (None, snd (run (backtester_init series3_with_orders (1 / 10)) schedule3))"
    by (simp add: run_series3_with_orders)
  have q: "sum_over_filled (market_data (snd (run (backtester_init series3_with_orders (1 / 10)) schedule3)))
      (\<lambda>i. the (executed_quantity
          (market_data (snd (run (backtester_init series3_with_orders (1 / 10)) schedule3))) ! i)) = 9"
    unfolding sum_over_filled_def fp2 by (simp add: run_series3_with_orders)
  from fill_rate_reads_constructor_column
    [of series3_with_orders "1 / 10" schedule3 None
        "snd (run (backtester_init series3_with_orders (1 / 10)) schedule3)" "''VWAP''"]
    wf2 r2 fp2 oq2
  have m: "\<exists>m. calculate_metrics (snd (run (backtester_init series3_with_orders (1 / 10)) schedule3)) ''VWAP''
            = Inr m \<and> fill_rate m = Finite (1 / 2)"
    by (simp add: q)
  from wf oq os e fp k wf2 oq2 fp2 m show ?thesis by blast
qed

text \<open>
  C2. For a market series of length N with the index 0, ..., N - 1 and
  0 \<le> start_index \<le> end_index < N, \<open>generate_orders\<close> raises nothing and returns the
  series with an order_quantity column that holds total_quantity / (end_index - start_index + 1) at
  every index of [start_index, end_index] and 0 at every other index, and the column
  sums to total_quantity (for every total_quantity, negative ones included). When
  end_index < start_index the column is 0 everywhere, whatever the index of the series.
\<close>

theorem generate_orders_twap:
  "(index md = map int [0..<N] \<and> 0 \<le> start_index self \<and> start_index self \<le> end_index self
      \<and> end_index self < int N
    \<longrightarrow> (let qs = map (\<lambda>i. Some (if start_index self \<le> int i \<and> int i \<le> end_index self
                                    then total_order_quantity self
                                         / real_of_int (end_index self - start_index self + 1)
                                    else 0)) [0..<N]
         in generate_orders self md = Inr (md\<lparr>order_quantity := Some qs\<rparr>)
            \<and> nansum qs = total_order_quantity self))
   \<and> (end_index self < start_index self
    \<longrightarrow> generate_orders self md
          = Inr (md\<lparr>order_quantity := Some (replicate (length (index md)) (Some 0))\<rparr>))"
proof (intro conjI impI)
  assume a: "index md = map int [0..<N] \<and> 0 \<le> start_index self \<and> start_index self \<le> end_index self
      \<and> end_index self < int N"
  then have ix: "index md = map int [0..<N]" and s: "0 \<le> start_index self"
    and se: "start_index self \<le> end_index self" and e: "end_index self < int N" by simp_all
  let ?q = "total_order_quantity self / real_of_int (end_index self - start_index self + 1)"
  have d: "distinct (index md)" unfolding ix by (simp add: distinct_map)
  have f: "filter (\<lambda>l. l \<notin> set (index md)) [start_index self .. end_index self] = []"
    unfolding ix using s e by (rule filter_in_range_empty)
  have pos: "0 < end_index self - start_index self + 1" using se by simp
  have fit: "\<forall>l \<in> set [start_index self .. end_index self]. l \<notin> set (index md) \<longrightarrow> fits_int64 l"
    unfolding ix set_dense_index using s e by auto
  have g: "generate_orders self md
      = Inr (md\<lparr>order_quantity := Some (map (\<lambda>i. Some (if start_index self \<le> int i \<and> int i \<le> end_index self
                                    then ?q else 0)) [0..<N])\<rparr>)"
    unfolding generate_orders_frame [OF d fit] f using pos by (simp add: ix comp_def)
  have "sum_list (map (\<lambda>i. if start_index self \<le> int i \<and> int i \<le> end_index self then ?q else 0) [0..<N])
      = ?q * real_of_int (max 0 (min (int N - 1) (end_index self) - start_index self + 1))"
    using s by (rule sum_list_window)
  also from se e have "max 0 (min (int N - 1) (end_index self) - start_index self + 1)
      = end_index self - start_index self + 1" by (simp add: max_def min_def)
  also from pos have "?q * real_of_int (end_index self - start_index self + 1) = total_order_quantity self"
    by simp
  finally have n: "nansum (map (\<lambda>i. Some (if start_index self \<le> int i \<and> int i \<le> end_index self
                                    then ?q else 0)) [0..<N]) = total_order_quantity self"
    by (simp add: nansum_map_Some_fun)
  from g n show "let qs = map (\<lambda>i. Some (if start_index self \<le> int i \<and> int i \<le> end_index self
                                    then total_order_quantity self
                                         / real_of_int (end_index self - start_index self + 1)
                                    else 0)) [0..<N]
         in generate_orders self md = Inr (md\<lparr>order_quantity := Some qs\<rparr>)
            \<and> nansum qs = total_order_quantity self"
    unfolding Let_def by (rule conjI)
next
  assume "end_index self < start_index self"
  then show "generate_orders self md
          = Inr (md\<lparr>order_quantity := Some (replicate (length (index md)) (Some 0))\<rparr>)"
    by (simp add: generate_orders_def)
qed

theorem generate_orders_twap_witness:
  "index series3 = map int [0..<3]
   \<and> start_index twap9 = 0 \<and> end_index twap9 = 2 \<and> total_order_quantity twap9 = 9
   \<and> generate_orders twap9 series3 = Inr (series3\<lparr>order_quantity := Some [Some 3, Some 3, Some 3]\<rparr>)
   \<and> nansum [Some 3, Some 3, Some 3] = 9
   \<and> start_index twap_empty_window = 2 \<and> end_index twap_empty_window = 0
   \<and> generate_orders twap_empty_window series3
       = Inr (series3\<lparr>order_quantity := Some [Some 0, Some 0, Some 0]\<rparr>)"
proof -
  have ix: "index series3 = map int [0..<3]" by (simp add: series3_def upt_3)
  have t: "start_index twap9 = 0" "end_index twap9 = 2" "total_order_quantity twap9 = 9"
    by (simp_all add: twap9_def)
  have w: "start_index twap_empty_window = 2" "end_index twap_empty_window = 0"
    by (simp_all add: twap_empty_window_def)
  from generate_orders_twap [of series3 3 twap9] ix t
  have g: "generate_orders twap9 series3 = Inr (series3\<lparr>order_quantity := Some [Some 3, Some 3, Some 3]\<rparr>)"
    by (simp add: Let_def upt_3)
  from generate_orders_twap [of series3 3 twap_empty_window] w
  have z: "generate_orders twap_empty_window series3
       = Inr (series3\<lparr>order_quantity := Some [Some 0, Some 0, Some 0]\<rparr>)"
    by (simp add: series3_def)
  from ix t g w z show ?thesis by simp
qed

text \<open>
  C8 as stated fails: \<open>generate_orders\<close> signals no fault for the indices 3 and -1 on
  a series of length 3. The assignment \<open>df_orders.at[idx, 'order_quantity'] =
  qty_per_slice\<close> with a label that the index does not have enlarges the frame. With
  end_index = 3 a fourth row labelled 3 is appended, with start_index = -1 a row
  labelled -1; the new row has the per-slice quantity and no price and no volume.
\<close>

theorem generate_orders_out_of_range_counterexample:
  "generate_orders twap_past_end series3
     = Inr \<lparr>index = [0, 1, 2, 3], price = [Some 10, Some 20, Some 30, None],
        volume = [Some 5, Some 5, Some 5, None],
        order_quantity = Some [Some (9 / 4), Some (9 / 4), Some (9 / 4), Some (9 / 4)]\<rparr>
   \<and> generate_orders twap_before_start series3
     = Inr \<lparr>index = [0, 1, 2, - 1], price = [Some 10, Some 20, Some 30, None],
        volume = [Some 5, Some 5, Some 5, None],
        order_quantity = Some [Some (9 / 4), Some (9 / 4), Some (9 / 4), Some (9 / 4)]\<rparr>"
  by (simp add: generate_orders_def Let_def twap_past_end_def twap_before_start_def series3_def
      at_set_order_quantity_def fits_int64_def upto_0_3 upto_m1_2)

text \<open>
  C8, amended. For every market series of length N with the index 0, ..., N - 1 and
  every window whose indices fit a signed 64-bit integer (-2^63 \<le> start_index and
  end_index < 2^63), \<open>generate_orders\<close> signals no fault, also when start_index or
  end_index lies outside [0, N). Every index of [start_index, end_index] inside [0, N)
  is assigned the per-slice quantity in place; every index of [start_index, end_index]
  outside [0, N) is accepted as well: a row with that label is appended (in the order
  of the window), with the per-slice quantity as order_quantity and undefined price and
  volume. No index is clamped. This is pandas' setting with enlargement, which its
  releases do to date, the newest with a warning that a later release will raise
  KeyError instead. An index that does not fit a signed 64-bit integer is left out of
  the statement.
\<close>

theorem generate_orders_enlarges:
  "index md = map int [0..<N] \<and> - (2 ^ 63) \<le> start_index self \<and> end_index self < 2 ^ 63
   \<longrightarrow> (let qty_per_slice = (if 0 < end_index self - start_index self + 1
                              then total_order_quantity self
                                   / real_of_int (end_index self - start_index self + 1)
                              else 0);
            outside = filter (\<lambda>l. l < 0 \<or> int N \<le> l) [start_index self .. end_index self]
        in generate_orders self md
           = Inr (md\<lparr>index := index md @ outside,
                 price := price md @ replicate (length outside) None,
                 volume := volume md @ replicate (length outside) None,
                 order_quantity := Some
                   (map (\<lambda>l. Some (if start_index self \<le> l \<and> l \<le> end_index self
                                     then qty_per_slice else 0)) (index md)
                    @ replicate (length outside) (Some qty_per_slice))\<rparr>))"
proof
  assume a: "index md = map int [0..<N] \<and> - (2 ^ 63) \<le> start_index self \<and> end_index self < 2 ^ 63"
  then have ix: "index md = map int [0..<N]" by simp
  have d: "distinct (index md)" unfolding ix by (simp add: distinct_map)
  have fit: "\<forall>l \<in> set [start_index self .. end_index self]. l \<notin> set (index md) \<longrightarrow> fits_int64 l"
    using a by (auto simp: fits_int64_def)
  have f: "filter (\<lambda>l. l \<notin> set (index md)) [start_index self .. end_index self]
      = filter (\<lambda>l. l < 0 \<or> int N \<le> l) [start_index self .. end_index self]"
    unfolding ix by (rule filter_dense_index)
  show "let qty_per_slice = (if 0 < end_index self - start_index self + 1
                              then total_order_quantity self
                                   / real_of_int (end_index self - start_index self + 1)
                              else 0);
            outside = filter (\<lambda>l. l < 0 \<or> int N \<le> l) [start_index self .. end_index self]
        in generate_orders self md
           = Inr (md\<lparr>index := index md @ outside,
                 price := price md @ replicate (length outside) None,
                 volume := volume md @ replicate (length outside) None,
                 order_quantity := Some
                   (map (\<lambda>l. Some (if start_index self \<le> l \<and> l \<le> end_index self
                                     then qty_per_slice else 0)) (index md)
                    @ replicate (length outside) (Some qty_per_slice))\<rparr>)"
    unfolding Let_def generate_orders_frame [OF d fit] f by (rule refl)
qed

theorem generate_orders_enlarges_witness:
  "index series3 = map int [0..<3]
   \<and> start_index twap_past_end = 0 \<and> end_index twap_past_end = 3
   \<and> - (2 ^ 63) \<le> start_index twap_past_end \<and> end_index twap_past_end < 2 ^ 63
   \<and> filter (\<lambda>l. l < 0 \<or> int 3 \<le> l) [start_index twap_past_end .. end_index twap_past_end] = [3]
   \<and> generate_orders twap_past_end series3
     = Inr (series3\<lparr>index := [0, 1, 2, 3], price := [Some 10, Some 20, Some 30, None],
        volume := [Some 5, Some 5, Some 5, None],
        order_quantity := Some [Some (9 / 4), Some (9 / 4), Some (9 / 4), Some (9 / 4)]\<rparr>)"
proof -
  have ix: "index series3 = map int [0..<3]" by (simp add: series3_def upt_3)
  have t: "start_index twap_past_end = 0" "end_index twap_past_end = 3"
    "total_order_quantity twap_past_end = 9"
    by (simp_all add: twap_past_end_def)
  have bd: "- (2 ^ 63) \<le> start_index twap_past_end" "end_index twap_past_end < 2 ^ 63"
    unfolding t by simp_all
  have f: "filter (\<lambda>l. l < 0 \<or> int 3 \<le> l) [start_index twap_past_end .. end_index twap_past_end] = [3]"
    unfolding t by (simp add: upto_0_3)
  from ix bd have h: "index series3 = map int [0..<3] \<and> - (2 ^ 63) \<le> start_index twap_past_end
      \<and> end_index twap_past_end < 2 ^ 63"
    by simp
  from generate_orders_enlarges [of series3 3 twap_past_end, unfolded Let_def f, THEN mp, OF h]
  have "generate_orders twap_past_end series3
     = Inr (series3\<lparr>index := [0, 1, 2, 3], price := [Some 10, Some 20, Some 30, None],
        volume := [Some 5, Some 5, Some 5, None],
        order_quantity := Some [Some (9 / 4), Some (9 / 4), Some (9 / 4), Some (9 / 4)]\<rparr>)"
    by (simp add: t series3_def)
  with ix t bd f show ?thesis by simp
qed

text \<open>
  C1. For a market series \<open>md\<close> (unique labels, columns as long as the index) and a
  schedule with the same index, \<open>run\<close> on a Backtester built from \<open>md\<close> raises nothing,
  and in each period i whose price p and volume v are numbers: if order_quantity[i] > 0
  then expected_price[i] = p, executed_price[i] = p * (1 + slippage_factor) and
  executed_quantity[i] = min(order_quantity[i], v), which depends on no other period
  (nothing is carried over); otherwise expected_price[i] and executed_price[i] stay
  undefined and executed_quantity[i] is 0.
\<close>

theorem run_per_period:
  "wf_frame md \<and> index df_orders = index md \<and> order_quantity df_orders = Some qs
     \<and> length qs = length (index md) \<and> i < length (index md)
     \<and> price md ! i = Some p \<and> volume md ! i = Some v
   \<longrightarrow> fst (run (backtester_init md s) df_orders) = None
       \<and> (let md' = market_data (snd (run (backtester_init md s) df_orders))
          in (cell_gt0 (qs ! i) \<longrightarrow>
                expected_price md' ! i = Some p
                \<and> executed_price md' ! i = Some (p * (1 + s))
                \<and> executed_quantity md' ! i = Some (min (the (qs ! i)) v))
           \<and> (\<not> cell_gt0 (qs ! i) \<longrightarrow>
                expected_price md' ! i = None
                \<and> executed_price md' ! i = None
                \<and> executed_quantity md' ! i = Some 0))"
proof
  assume a: "wf_frame md \<and> index df_orders = index md \<and> order_quantity df_orders = Some qs
     \<and> length qs = length (index md) \<and> i < length (index md)
     \<and> price md ! i = Some p \<and> volume md ! i = Some v"
  then have wf: "wf_frame md" and ix: "index df_orders = index md"
    and oq: "order_quantity df_orders = Some qs" and len: "length qs = length (index md)"
    and i: "i < length (index md)" and p: "price md ! i = Some p" and v: "volume md ! i = Some v"
    by simp_all
  from wf have d: "distinct (index md)" by (simp add: wf_frame_def)
  let ?md = "market_data (backtester_init md s)"
  let ?rows = "zip (index md) qs"
  have ok: "fst (run_rows s ?rows ?md) = None"
    unfolding run_rows_ok_iff by (auto simp: init_columns dest: set_zip_leftD)
  have fst_run: "fst (run (backtester_init md s) df_orders) = None"
    using ok by (simp add: run_with_column [OF oq] ix init_columns)
  have md': "market_data (snd (run (backtester_init md s) df_orders)) = snd (run_rows s ?rows ?md)"
    by (simp add: run_with_column [OF oq] ix init_columns)
  have pos: "expected_price (snd (run_rows s ?rows ?md)) ! i = Some p
      \<and> executed_price (snd (run_rows s ?rows ?md)) ! i = Some (p * (1 + s))
      \<and> executed_quantity (snd (run_rows s ?rows ?md)) ! i = Some (min (the (qs ! i)) v)"
    if g: "cell_gt0 (qs ! i)"
  proof -
    from g obtain q where q: "qs ! i = Some q" by (cases "qs ! i") (simp_all add: cell_gt0_def)
    have mem: "(index ?md ! i, qs ! i) \<in> set ?rows"
      using i len by (simp add: init_columns zip_nth_mem)
    have "executed_quantity (snd (run_rows s ?rows ?md)) ! i = py_min (qs ! i) (volume ?md ! i)
       \<and> executed_price (snd (run_rows s ?rows ?md)) ! i = cell_mul (price ?md ! i) (Some (1 + s))
       \<and> expected_price (snd (run_rows s ?rows ?md)) ! i = price ?md ! i"
      using d i len mem g ok by (intro run_rows_filled) (simp_all add: init_columns)
    then show ?thesis
      by (simp add: init_columns p v q py_min_Some cell_mul_Some)
  qed
  have neg: "expected_price (snd (run_rows s ?rows ?md)) ! i = None
      \<and> executed_price (snd (run_rows s ?rows ?md)) ! i = None
      \<and> executed_quantity (snd (run_rows s ?rows ?md)) ! i = Some 0"
    if g: "\<not> cell_gt0 (qs ! i)"
  proof -
    have no: "\<forall>r \<in> set (zip (index df_orders) qs). cell_gt0 (snd r) \<longrightarrow> fst r \<noteq> index md ! i"
      unfolding ix using zip_distinct_label [OF d len i] g by metis
    from run_init_untouched [OF d i no, of s] oq show ?thesis
      unfolding md' by simp
  qed
  from fst_run pos neg
  show "fst (run (backtester_init md s) df_orders) = None
       \<and> (let md' = market_data (snd (run (backtester_init md s) df_orders))
          in (cell_gt0 (qs ! i) \<longrightarrow>
                expected_price md' ! i = Some p
                \<and> executed_price md' ! i = Some (p * (1 + s))
                \<and> executed_quantity md' ! i = Some (min (the (qs ! i)) v))
           \<and> (\<not> cell_gt0 (qs ! i) \<longrightarrow>
                expected_price md' ! i = None
                \<and> executed_price md' ! i = None
                \<and> executed_quantity md' ! i = Some 0))"
    unfolding Let_def md' by blast
qed

theorem run_per_period_witness:
  "wf_frame series_capped \<and> index gap_schedule = index series_capped
   \<and> order_quantity gap_schedule = Some [Some 3, Some 0, Some 3]
   \<and> price series_capped ! 0 = Some 10 \<and> volume series_capped ! 0 = Some 1
   \<and> price series_capped ! 1 = Some 20 \<and> volume series_capped ! 1 = Some 5
   \<and> fst (run (backtester_init series_capped (1 / 10)) gap_schedule) = None
   \<and> expected_price (market_data (snd (run (backtester_init series_capped (1 / 10)) gap_schedule))) ! 0
       = Some 10
   \<and> executed_price (market_data (snd (run (backtester_init series_capped (1 / 10)) gap_schedule))) ! 0
       = Some 11
   \<and> executed_quantity (market_data (snd (run (backtester_init series_capped (1 / 10)) gap_schedule))) ! 0
       = Some 1
   \<and> expected_price (market_data (snd (run (backtester_init series_capped (1 / 10)) gap_schedule))) ! 1
       = None
   \<and> executed_price (market_data (snd (run (backtester_init series_capped (1 / 10)) gap_schedule))) ! 1
       = None
   \<and> executed_quantity (market_data (snd (run (backtester_init series_capped (1 / 10)) gap_schedule))) ! 1
       = Some 0"
proof -
  have wf: "wf_frame series_capped"
    by (simp add: wf_frame_def series_capped_def series3_def)
  have ix: "index gap_schedule = index series_capped"
    and oq: "order_quantity gap_schedule = Some [Some 3, Some 0, Some 3]"
    by (simp_all add: gap_schedule_def)
  have len: "length [Some 3, Some 0, Some (3::real)] = length (index series_capped)"
    "0 < length (index series_capped)" "1 < length (index series_capped)"
    by (simp_all add: series_capped_def series3_def)
  have c: "price series_capped ! 0 = Some 10" "volume series_capped ! 0 = Some 1"
    "price series_capped ! 1 = Some 20" "volume series_capped ! 1 = Some 5"
    by (simp_all add: series_capped_def series3_def)
  from run_per_period [of series_capped gap_schedule "[Some 3, Some 0, Some 3]" 0 10 1 "1 / 10"]
    wf ix oq len c
  have p0: "fst (run (backtester_init series_capped (1 / 10)) gap_schedule) = None
    \<and> expected_price (market_data (snd (run (backtester_init series_capped (1 / 10)) gap_schedule))) ! 0
       = Some 10
    \<and> executed_price (market_data (snd (run (backtester_init series_capped (1 / 10)) gap_schedule))) ! 0
       = Some 11
    \<and> executed_quantity (market_data (snd (run (backtester_init series_capped (1 / 10)) gap_schedule))) ! 0
       = Some 1"
    by (simp add: Let_def cell_gt0_def)
  from run_per_period [of series_capped gap_schedule "[Some 3, Some 0, Some 3]" 1 20 5 "1 / 10"]
    wf ix oq len c
  have p1: "expected_price (market_data (snd (run (backtester_init series_capped (1 / 10)) gap_schedule))) ! 1
       = None
    \<and> executed_price (market_data (snd (run (backtester_init series_capped (1 / 10)) gap_schedule))) ! 1
       = None
    \<and> executed_quantity (market_data (snd (run (backtester_init series_capped (1 / 10)) gap_schedule))) ! 1
       = Some 0"
    by (simp add: Let_def cell_gt0_def)
  from wf ix oq c p0 p1 show ?thesis by blast
qed

text \<open>
  C7 as stated fails: \<open>run\<close> has no alignment check. A schedule that covers only the
  periods 0 and 1 of a series of three periods is accepted: \<open>run\<close> raises nothing and
  period 2 is left with executed quantity 0 and no prices, as if the schedule had been
  padded with an empty order. A schedule with a fourth row, labelled 3, that orders
  nothing is accepted as well: the row is ignored, as if the schedule had been truncated.
\<close>

theorem run_misaligned_counterexample:
  "run (backtester_init series3 (1 / 10)) short_schedule
     = (None, \<lparr>market_data = \<lparr>index = [0, 1, 2], price = [Some 10, Some 20, Some 30],
          volume = [Some 5, Some 5, Some 5], order_quantity = None,
          executed_quantity = [Some 3, Some 3, Some 0], executed_price = [Some 11, Some 22, None],
          expected_price = [Some 10, Some 20, None]\<rparr>, slippage_factor = 1 / 10\<rparr>)
   \<and> run (backtester_init series3 (1 / 10)) long_schedule
     = (None, \<lparr>market_data = \<lparr>index = [0, 1, 2], price = [Some 10, Some 20, Some 30],
          volume = [Some 5, Some 5, Some 5], order_quantity = None,
          executed_quantity = [Some 3, Some 3, Some 3], executed_price = [Some 11, Some 22, Some 33],
          expected_price = [Some 10, Some 20, Some 30]\<rparr>, slippage_factor = 1 / 10\<rparr>)"
  by (simp add: run_def backtester_init_def series3_def short_schedule_def long_schedule_def
      fill_row_def Let_def cell_gt0_def py_min_def cell_mul_def)

text \<open>
  C7, amended. \<open>run\<close> signals a fault, a KeyError, exactly when some row of the schedule
  with a positive order quantity has an index label that the market series does not
  have; in every other case of misalignment it raises nothing. A shorter schedule, or
  one over another index domain, is accepted: a period of the market series whose label
  the schedule does not have keeps executed quantity 0 and undefined prices; rows of
  the schedule that order nothing are ignored whatever their label. (For a schedule
  that has an order_quantity column.)
\<close>

theorem run_alignment_fault:
  "(order_quantity df_orders = Some qs \<longrightarrow>
      (fst (run self df_orders) = Some KeyError
         \<longleftrightarrow> (\<exists>r \<in> set (zip (index df_orders) qs).
                cell_gt0 (snd r) \<and> fst r \<notin> set (index (market_data self))))
      \<and> (fst (run self df_orders) = None
         \<longleftrightarrow> (\<forall>r \<in> set (zip (index df_orders) qs).
                cell_gt0 (snd r) \<longrightarrow> fst r \<in> set (index (market_data self)))))
   \<and> (wf_frame md \<and> i < length (index md) \<and> index md ! i \<notin> set (index df_orders) \<longrightarrow>
        executed_quantity (market_data (snd (run (backtester_init md s) df_orders))) ! i = Some 0
        \<and> executed_price (market_data (snd (run (backtester_init md s) df_orders))) ! i = None
        \<and> expected_price (market_data (snd (run (backtester_init md s) df_orders))) ! i = None)"
proof (intro conjI impI)
  assume oq: "order_quantity df_orders = Some qs"
  have ok: "fst (run self df_orders) = None
      \<longleftrightarrow> (\<forall>r \<in> set (zip (index df_orders) qs).
                cell_gt0 (snd r) \<longrightarrow> fst r \<in> set (index (market_data self)))"
    unfolding run_with_column(1) [OF oq] by (rule run_rows_ok_iff)
  then show "fst (run self df_orders) = None
      \<longleftrightarrow> (\<forall>r \<in> set (zip (index df_orders) qs).
                cell_gt0 (snd r) \<longrightarrow> fst r \<in> set (index (market_data self)))" .
  have ke: "(fst (run self df_orders) = Some KeyError) = (fst (run self df_orders) \<noteq> None)"
    unfolding run_with_column(1) [OF oq] by (rule run_rows_KeyError_iff)
  from ok show "fst (run self df_orders) = Some KeyError
         \<longleftrightarrow> (\<exists>r \<in> set (zip (index df_orders) qs).
                cell_gt0 (snd r) \<and> fst r \<notin> set (index (market_data self)))"
    unfolding ke by auto
next
  assume a: "wf_frame md \<and> i < length (index md) \<and> index md ! i \<notin> set (index df_orders)"
  then have d: "distinct (index md)" and i: "i < length (index md)"
    and n: "index md ! i \<notin> set (index df_orders)" by (simp_all add: wf_frame_def)
  obtain qs' where q: "order_quantity df_orders = Some qs' \<or> order_quantity df_orders = None"
    by (cases "order_quantity df_orders") auto
  have no: "\<forall>r \<in> set (zip (index df_orders) qs'). cell_gt0 (snd r) \<longrightarrow> fst r \<noteq> index md ! i"
  proof (intro ballI impI)
    fix r assume "r \<in> set (zip (index df_orders) qs')"
    then have "(fst r, snd r) \<in> set (zip (index df_orders) qs')" by simp
    then have "fst r \<in> set (index df_orders)" by (rule set_zip_leftD)
    with n show "fst r \<noteq> index md ! i" by auto
  qed
  from run_init_untouched [OF d i no q]
  show "executed_quantity (market_data (snd (run (backtester_init md s) df_orders))) ! i = Some 0"
    and "executed_price (market_data (snd (run (backtester_init md s) df_orders))) ! i = None"
    and "expected_price (market_data (snd (run (backtester_init md s) df_orders))) ! i = None"
    by simp_all
qed

theorem run_alignment_fault_witness:
  "generate_orders twap_past_end series3 = Inr past_end_schedule
   \<and> order_quantity past_end_schedule
     = Some [Some (9 / 4), Some (9 / 4), Some (9 / 4), Some (9 / 4)]
   \<and> index past_end_schedule = [0, 1, 2, 3]
   \<and> index (market_data (backtester_init series3 (1 / 10))) = [0, 1, 2]
   \<and> fst (run (backtester_init series3 (1 / 10)) past_end_schedule)
       = Some KeyError
   \<and> order_quantity short_schedule = Some [Some 3, Some 3]
   \<and> index short_schedule = [0, 1]
   \<and> fst (run (backtester_init series3 (1 / 10)) short_schedule) = None
   \<and> wf_frame series3 \<and> index series3 ! 2 = 2
   \<and> executed_quantity (market_data (snd (run (backtester_init series3 (1 / 10)) short_schedule))) ! 2
       = Some 0
   \<and> executed_price (market_data (snd (run (backtester_init series3 (1 / 10)) short_schedule))) ! 2
       = None
   \<and> expected_price (market_data (snd (run (backtester_init series3 (1 / 10)) short_schedule))) ! 2
       = None"
proof -
  have oq: "order_quantity past_end_schedule
     = Some [Some (9 / 4), Some (9 / 4), Some (9 / 4), Some (9 / 4)]"
    and ix: "index past_end_schedule = [0, 1, 2, 3]"
    by (simp_all add: past_end_schedule_def)
  have im: "index (market_data (backtester_init series3 (1 / 10))) = [0, 1, 2]"
    by (simp add: init_columns series3_def)
  have ex: "\<exists>r \<in> set (zip [0, 1, 2, 3::int] [Some (9 / 4), Some (9 / 4), Some (9 / 4), Some (9 / 4 :: real)]).
      cell_gt0 (snd r) \<and> fst r \<notin> set [0, 1, 2::int]"
    by (simp add: cell_gt0_def)
  from run_alignment_fault [of past_end_schedule
      "[Some (9 / 4), Some (9 / 4), Some (9 / 4), Some (9 / 4)]" "backtester_init series3 (1 / 10)"
      series3 2 "1 / 10"] oq ex
  have k: "fst (run (backtester_init series3 (1 / 10)) past_end_schedule)
       = Some KeyError"
    unfolding ix im by blast
  have oq2: "order_quantity short_schedule = Some [Some 3, Some 3]"
    and ix2: "index short_schedule = [0, 1]"
    by (simp_all add: short_schedule_def)
  have al: "\<forall>r \<in> set (zip [0, 1::int] [Some 3, Some (3::real)]).
      cell_gt0 (snd r) \<longrightarrow> fst r \<in> set [0, 1, 2::int]"
    by simp
  from run_alignment_fault [of short_schedule "[Some 3, Some 3]" "backtester_init series3 (1 / 10)"
      series3 2 "1 / 10"] oq2 al
  have n: "fst (run (backtester_init series3 (1 / 10)) short_schedule) = None"
    unfolding ix2 im by blast
  have wf: "wf_frame series3" and l: "index series3 ! 2 = 2"
    and i: "2 < length (index series3)" and ni: "index series3 ! 2 \<notin> set (index short_schedule)"
    by (simp_all add: wf_frame_def series3_def short_schedule_def)
  from run_alignment_fault [of short_schedule "[Some 3, Some 3]" "backtester_init series3 (1 / 10)"
      series3 2 "1 / 10"] wf i ni
  have u: "executed_quantity (market_data (snd (run (backtester_init series3 (1 / 10)) short_schedule))) ! 2
       = Some 0
   \<and> executed_price (market_data (snd (run (backtester_init series3 (1 / 10)) short_schedule))) ! 2
       = None
   \<and> expected_price (market_data (snd (run (backtester_init series3 (1 / 10)) short_schedule))) ! 2
       = None"
    by blast
  from generate_orders_past_end oq ix im k oq2 ix2 n wf l u show ?thesis by blast
qed

text \<open>
  C9. \<open>run\<close> writes only into the working copy that \<open>__init__\<close> made. In a world in
  which no Backtester exists yet, every DataFrame object is the caller's; after any
  sequence of constructions of Backtesters and calls of \<open>run\<close>, on whichever of the
  objects then existing, each of these objects is what it was: no row, column or value
  of it has changed. The same holds from any world on for the objects below an address
  at or above which all working copies lie.
\<close>

theorem run_leaves_callers_frames:
  "(backtesters w = [] \<and> a < length (frames w)
      \<longrightarrow> frames (exec_calls w cs) ! a = frames w ! a)
   \<and> (callers_below n w \<and> a < n \<longrightarrow> frames (exec_calls w cs) ! a = frames w ! a)"
proof (intro conjI impI)
  assume "backtesters w = [] \<and> a < length (frames w)"
  then have "callers_below (length (frames w)) w" and "a < length (frames w)"
    by (simp_all add: callers_below_def)
  then show "frames (exec_calls w cs) ! a = frames w ! a" by (rule exec_calls_keep)
next
  assume "callers_below n w \<and> a < n"
  then have "callers_below n w" and "a < n" by simp_all
  then show "frames (exec_calls w cs) ! a = frames w ! a" by (rule exec_calls_keep)
qed

theorem run_leaves_callers_frames_witness:
  "backtesters main_world = [] \<and> 0 < length (frames main_world)
   \<and> frames main_world ! 0 = Plain schedule3
   \<and> frames (exec_calls main_world main_calls) ! 0 = Plain schedule3
   \<and> frames (exec_calls main_world main_calls) ! 1
       = Executed \<lparr>index = [0, 1, 2], price = [Some 10, Some 20, Some 30],
           volume = [Some 5, Some 5, Some 5], order_quantity = Some [Some 3, Some 3, Some 3],
           executed_quantity = [Some 3, Some 3, Some 3], executed_price = [Some 11, Some 22, Some 33],
           expected_price = [Some 10, Some 20, Some 30]\<rparr>
   \<and> callers_below 1 main_world"
proof -
  have b: "backtesters main_world = []" and l: "0 < length (frames main_world)"
    and f: "frames main_world ! 0 = Plain schedule3"
    by (simp_all add: main_world_def)
  have c: "callers_below 1 main_world"
    by (simp add: callers_below_def main_world_def)
  from run_leaves_callers_frames [of main_world 0 main_calls 1] b l f
  have k: "frames (exec_calls main_world main_calls) ! 0 = Plain schedule3" by simp
  have w: "frames (exec_calls main_world main_calls) ! 1
       = Executed \<lparr>index = [0, 1, 2], price = [Some 10, Some 20, Some 30],
           volume = [Some 5, Some 5, Some 5], order_quantity = Some [Some 3, Some 3, Some 3],
           executed_quantity = [Some 3, Some 3, Some 3], executed_price = [Some 11, Some 22, Some 33],
           expected_price = [Some 10, Some 20, Some 30]\<rparr>"
    by (simp add: main_world_run)
  from b l f k w c show ?thesis by blast
qed

end
